theory Spec2Isabelle
  imports Complex_Main
begin

section \<open>Data model (types/diagram-types.ts)\<close>

text \<open>
  TypeScript \<open>number\<close> values are modelled as mathematical reals (and as integers where
  the code only ever stores a loop index or the result of \<open>Math.floor\<close>), so rounding
  and infinities of IEEE doubles are outside this model. NaN is modelled where the
  program produces it: the generator divides by the chord length of a connection, which
  is zero for a self loop, and stores the result in the connection's control points.
  Record fields carry a prefix, since \<open>x\<close>, \<open>id\<close>, \<open>from\<close> and \<open>to\<close> cannot be field names
  here.
\<close>

text \<open>A number that may be NaN, and the arithmetic on it: any NaN operand gives NaN.\<close>

datatype jsnum = Num real | NaN

definition jbin :: "(real \<Rightarrow> real \<Rightarrow> real) \<Rightarrow> jsnum \<Rightarrow> jsnum \<Rightarrow> jsnum" where
  "jbin f a b =
     (case a of
        NaN \<Rightarrow> NaN
      | Num u \<Rightarrow> (case b of NaN \<Rightarrow> NaN | Num v \<Rightarrow> Num (f u v)))"

definition jun :: "(real \<Rightarrow> real) \<Rightarrow> jsnum \<Rightarrow> jsnum" where
  "jun f a = (case a of NaN \<Rightarrow> NaN | Num u \<Rightarrow> Num (f u))"

instantiation jsnum :: "{plus, minus, times}"
begin

definition plus_jsnum :: "jsnum \<Rightarrow> jsnum \<Rightarrow> jsnum" where
  "plus_jsnum a b = jbin (+) a b"

definition minus_jsnum :: "jsnum \<Rightarrow> jsnum \<Rightarrow> jsnum" where
  "minus_jsnum a b = jbin (-) a b"

definition times_jsnum :: "jsnum \<Rightarrow> jsnum \<Rightarrow> jsnum" where
  "times_jsnum a b = jbin (*) a b"

instance ..

end

text \<open>
  \<open>a / b\<close> where the quotient is stored: \<open>0 / 0\<close> is NaN. A nonzero \<open>a\<close> over zero would be
  an infinity, which this model does not have; at the two uses of \<open>js_div\<close> the divisor is
  the chord length \<open>sqrt (dx * dx + dy * dy)\<close> and the dividends are \<open>-dy\<close> and \<open>dx\<close>, so a
  zero divisor only meets a zero dividend.
\<close>

definition js_div :: "real \<Rightarrow> real \<Rightarrow> jsnum" where
  "js_div a b = (if b = 0 then NaN else Num (a / b))"

text \<open>
  The type \<open>{ x: number; y: number }\<close>: \<open>Point\<close> where both coordinates are computed from
  node fields alone, \<open>NPoint\<close> where a coordinate may be NaN (the stored control points and
  everything computed from them).
\<close>

record Point =
  pt_x :: real
  pt_y :: real

record NPoint =
  np_x :: jsnum
  np_y :: jsnum

definition npoint :: "Point \<Rightarrow> NPoint" where
  "npoint p = \<lparr> np_x = Num (pt_x p), np_y = Num (pt_y p) \<rparr>"

record Node =
  node_id :: int
  node_x :: real
  node_y :: real
  node_width :: real
  node_height :: real
  node_label :: "string option"

record Connection =
  conn_id :: int
  conn_from :: int
  conn_to :: int
  curve :: real
  dashed :: bool
  hasArrow :: bool
  controlPoint1 :: NPoint
  controlPoint2 :: NPoint

record DiagramState =
  nodes :: "Node list"
  connections :: "Connection list"

record DiagramParams =
  nodeCount :: real
  connectionDensity :: real
  layoutSpread :: real
  verticalBias :: real
  horizontalBias :: real
  nodeMinWidth :: real
  nodeMaxWidth :: real
  nodeMinHeight :: real
  nodeMaxHeight :: real
  nodeRoundness :: real
  nodeThickness :: real
  nodeScale :: real
  curveIntensity :: real
  curveVariation :: real
  connectionThickness :: real
  arrowSize :: real
  arrowFrequency :: real
  dashedFrequency :: real
  dashLength :: real
  dashGap :: real
  arrowGap :: real
  flowDirectionality :: real
  downwardBias :: real
  rightwardBias :: real
  backwardConnectionFreq :: real
  multiConnectionChance :: real
  branchingFactor :: real
  clusterTendency :: real
  curveSmoothing :: real
  controlPointDistance :: real
  selfLoopChance :: real
  parallelLineOffset :: real
  randomSeed :: real
  positionJitter :: real
  sizeVariation :: real
  styleVariation :: real
  animationSpeed :: real
  morphComplexity :: real
  strokeColor :: string
  fillColor :: string
  backgroundColor :: string
  canvasWidth :: real
  canvasHeight :: real
  nodeTitles :: "string list"

text \<open>Reading a property of \<open>undefined\<close> raises a TypeError.\<close>

datatype error = TypeError

text \<open>\<open>array[k]\<close>: \<open>undefined\<close> (here \<open>None\<close>) outside the bounds, also for a negative index.\<close>

definition js_index :: "'a list \<Rightarrow> int \<Rightarrow> 'a option" where
  "js_index xs k = (if 0 \<le> k \<and> k < int (length xs) then Some (xs ! nat k) else None)"

text \<open>\<open>a || b\<close> on object references: an object is truthy, \<open>undefined\<close> is not.\<close>

definition js_or_obj :: "'a option \<Rightarrow> 'a option \<Rightarrow> 'a option" where
  "js_or_obj a b = (case a of Some v \<Rightarrow> Some v | None \<Rightarrow> b)"

text \<open>\<open>a || b\<close> on optional strings: \<open>undefined\<close> and the empty string are both falsy.\<close>

definition js_or_str :: "string option \<Rightarrow> string option \<Rightarrow> string option" where
  "js_or_str a b = (case a of Some s \<Rightarrow> (if s = [] then b else Some s) | None \<Rightarrow> b)"

text \<open>A point none of whose coordinates is NaN.\<close>

definition finitePoint :: "NPoint \<Rightarrow> bool" where
  "finitePoint q = (np_x q \<noteq> NaN \<and> np_y q \<noteq> NaN)"

section \<open>Interpolation and easing (components/DiagramCanvas.tsx)\<close>

definition lerp :: "real \<Rightarrow> real \<Rightarrow> real \<Rightarrow> real" where
  "lerp a b t = a + (b - a) * t"

text \<open>The same function \<open>lerp\<close> where an argument may be NaN.\<close>

definition lerpN :: "jsnum \<Rightarrow> jsnum \<Rightarrow> jsnum \<Rightarrow> jsnum" where
  "lerpN a b t = a + (b - a) * t"

definition easeInOutCubic :: "real \<Rightarrow> real" where
  "easeInOutCubic t = (if t < 0.5 then 4 * t * t * t else 1 - (- 2 * t + 2) ^ 3 / 2)"

text \<open>The object literal pushed by the node loop of \<open>interpolateStates\<close>.\<close>

definition lerpNode :: "Node \<Rightarrow> Node \<Rightarrow> real \<Rightarrow> Node" where
  "lerpNode fromNode toNode progress =
     \<lparr> node_id = node_id toNode,
       node_x = lerp (node_x fromNode) (node_x toNode) progress,
       node_y = lerp (node_y fromNode) (node_y toNode) progress,
       node_width = lerp (node_width fromNode) (node_width toNode) progress,
       node_height = lerp (node_height fromNode) (node_height toNode) progress,
       node_label = js_or_str (node_label toNode) (node_label fromNode) \<rparr>"

text \<open>The body of the node loop at index \<open>i\<close>: both lookups, then the literal.\<close>

definition interpolateNode :: "Node list \<Rightarrow> Node list \<Rightarrow> real \<Rightarrow> int \<Rightarrow> error + Node" where
  "interpolateNode fromNodes toNodes progress i =
    (case js_or_obj (js_index fromNodes i)
            (js_index toNodes (min i (int (length toNodes) - 1))) of
       None \<Rightarrow> Inl TypeError
     | Some fromNode \<Rightarrow>
        (case js_or_obj (js_index toNodes i)
                (js_index fromNodes (min i (int (length fromNodes) - 1))) of
           None \<Rightarrow> Inl TypeError
         | Some toNode \<Rightarrow> Inr (lerpNode fromNode toNode progress)))"

text \<open>The object literal pushed by the connection loop of \<open>interpolateStates\<close>.\<close>

definition lerpConn :: "Connection \<Rightarrow> Connection \<Rightarrow> real \<Rightarrow> Connection" where
  "lerpConn fromConn toConn progress =
     \<lparr> conn_id = conn_id toConn,
       conn_from = conn_from toConn,
       conn_to = conn_to toConn,
       curve = lerp (curve fromConn) (curve toConn) progress,
       dashed = dashed toConn,
       hasArrow = hasArrow toConn,
       controlPoint1 =
         \<lparr> np_x = lerpN (np_x (controlPoint1 fromConn)) (np_x (controlPoint1 toConn))
                    (Num progress),
           np_y = lerpN (np_y (controlPoint1 fromConn)) (np_y (controlPoint1 toConn))
                    (Num progress) \<rparr>,
       controlPoint2 =
         \<lparr> np_x = lerpN (np_x (controlPoint2 fromConn)) (np_x (controlPoint2 toConn))
                    (Num progress),
           np_y = lerpN (np_y (controlPoint2 fromConn)) (np_y (controlPoint2 toConn))
                    (Num progress) \<rparr> \<rparr>"

text \<open>The body of the connection loop at index \<open>i\<close>.\<close>

definition interpolateConn ::
  "Connection list \<Rightarrow> Connection list \<Rightarrow> real \<Rightarrow> int \<Rightarrow> error + Connection" where
  "interpolateConn fromConns toConns progress i =
    (case js_or_obj (js_index fromConns i)
            (js_index toConns (min i (int (length toConns) - 1))) of
       None \<Rightarrow> Inl TypeError
     | Some fromConn \<Rightarrow>
        (case js_or_obj (js_index toConns i)
                (js_index fromConns (min i (int (length fromConns) - 1))) of
           None \<Rightarrow> Inl TypeError
         | Some toConn \<Rightarrow> Inr (lerpConn fromConn toConn progress)))"

text \<open>
  \<open>for (let i = 0; i < max; i++) { ...; out.push(...) }\<close>: the indices still to visit, the
  list built so far, and the first exception ends the loop.
\<close>

fun push_loop :: "(int \<Rightarrow> error + 'a) \<Rightarrow> nat list \<Rightarrow> 'a list \<Rightarrow> error + 'a list" where
  "push_loop body [] out = Inr out"
| "push_loop body (i # rest) out =
     (case body (int i) of
        Inl e \<Rightarrow> Inl e
      | Inr v \<Rightarrow> push_loop body rest (out @ [v]))"

definition interpolateStates :: "DiagramState \<Rightarrow> DiagramState \<Rightarrow> real \<Rightarrow> error + DiagramState" where
  "interpolateStates from_s to_s progress =
    (let maxNodes = max (length (nodes from_s)) (length (nodes to_s)) in
     case push_loop (interpolateNode (nodes from_s) (nodes to_s) progress) [0..<maxNodes] [] of
       Inl e \<Rightarrow> Inl e
     | Inr ns \<Rightarrow>
        (let maxConnections = max (length (connections from_s)) (length (connections to_s)) in
         case push_loop (interpolateConn (connections from_s) (connections to_s) progress)
                [0..<maxConnections] [] of
           Inl e \<Rightarrow> Inl e
         | Inr cs \<Rightarrow> Inr \<lparr> nodes = ns, connections = cs \<rparr>))"

section \<open>Geometry shared by the two renderers\<close>

text \<open>
  \<open>Math.atan2(y, x)\<close> on reals: the angle of the point \<open>(x, y)\<close> in \<open>(-\<pi>, \<pi>]\<close>, and 0 at
  the origin.
\<close>

definition atan2 :: "real \<Rightarrow> real \<Rightarrow> real" where
  "atan2 y x =
     (if 0 < x then arctan (y / x)
      else if x < 0 then (if 0 \<le> y then arctan (y / x) + pi else arctan (y / x) - pi)
      else if 0 < y then pi / 2
      else if y < 0 then - (pi / 2)
      else 0)"

text \<open>
  \<open>getConnectionPoint\<close>, \<open>getPointOnBezier\<close> and \<open>getTangentOnBezier\<close> exist twice, in
  DiagramCanvas.tsx and in the SVG exporter, with the same arithmetic; one definition
  stands for both copies. \<open>getConnectionPoint\<close> reads node fields only and computes on
  reals; its divisions are HOL's total division.
\<close>

definition getConnectionPoint :: "Node \<Rightarrow> Node \<Rightarrow> real \<Rightarrow> Point" where
  "getConnectionPoint fromNode toNode gap =
    (let fromCenterX = node_x fromNode + node_width fromNode / 2;
         fromCenterY = node_y fromNode + node_height fromNode / 2;
         toCenterX = node_x toNode + node_width toNode / 2;
         toCenterY = node_y toNode + node_height toNode / 2;
         dx = toCenterX - fromCenterX;
         dy = toCenterY - fromCenterY;
         angle = atan2 dy dx;
         halfWidth = node_width fromNode / 2;
         halfHeight = node_height fromNode / 2;
         edge =
           (if \<bar>cos angle\<bar> > \<bar>sin angle\<bar> * (halfWidth / halfHeight) then
              (if dx > 0 then
                 (node_x fromNode + node_width fromNode,
                  fromCenterY + (halfWidth / \<bar>cos angle\<bar>) * sin angle)
               else
                 (node_x fromNode,
                  fromCenterY - (halfWidth / \<bar>cos angle\<bar>) * sin angle))
            else
              (if dy > 0 then
                 (fromCenterX + (halfHeight / \<bar>sin angle\<bar>) * cos angle,
                  node_y fromNode + node_height fromNode)
               else
                 (fromCenterX - (halfHeight / \<bar>sin angle\<bar>) * cos angle,
                  node_y fromNode)));
         gapX = gap * cos angle;
         gapY = gap * sin angle
     in \<lparr> pt_x = fst edge + gapX, pt_y = snd edge + gapY \<rparr>)"

text \<open>
  The bezier functions receive the stored control points, or points computed from them, so
  their arithmetic is the one that propagates NaN; a factor made of \<open>t\<close> alone is a real.
\<close>

definition getPointOnBezier :: "NPoint \<Rightarrow> NPoint \<Rightarrow> NPoint \<Rightarrow> NPoint \<Rightarrow> real \<Rightarrow> NPoint" where
  "getPointOnBezier p0 p1 p2 p3 t =
    (let t2 = t * t; t3 = t2 * t; mt = 1 - t; mt2 = mt * mt; mt3 = mt2 * mt
     in \<lparr> np_x = Num mt3 * np_x p0 + Num (3 * mt2 * t) * np_x p1 + Num (3 * mt * t2) * np_x p2
                 + Num t3 * np_x p3,
          np_y = Num mt3 * np_y p0 + Num (3 * mt2 * t) * np_y p1 + Num (3 * mt * t2) * np_y p2
                 + Num t3 * np_y p3 \<rparr>)"

definition getTangentOnBezier :: "NPoint \<Rightarrow> NPoint \<Rightarrow> NPoint \<Rightarrow> NPoint \<Rightarrow> real \<Rightarrow> NPoint" where
  "getTangentOnBezier p0 p1 p2 p3 t =
    (let t2 = t * t; mt = 1 - t; mt2 = mt * mt;
         dx = Num (3 * mt2) * (np_x p1 - np_x p0) + Num (6 * mt * t) * (np_x p2 - np_x p1)
              + Num (3 * t2) * (np_x p3 - np_x p2);
         dy = Num (3 * mt2) * (np_y p1 - np_y p0) + Num (6 * mt * t) * (np_y p2 - np_y p1)
              + Num (3 * t2) * (np_y p3 - np_y p2)
     in \<lparr> np_x = dx, np_y = dy \<rparr>)"

section \<open>What a renderer draws for a connection\<close>

text \<open>
  Both backends are modelled by the shapes they emit: a stroked cubic bezier (start,
  first and second control point, end, stroke colour, line width, dash pattern if any)
  and a filled triangle (three corners, fill colour). For the canvas these are the path
  calls followed by \<open>stroke()\<close> or \<open>fill()\<close>; for the SVG document they are the \<open>path\<close>
  elements, whose number formatting is not modelled.
\<close>

datatype DrawOp =
    StrokeBezier Point NPoint NPoint Point string real "(real \<times> real) option"
  | FillTriangle NPoint NPoint NPoint string

text \<open>\<open>drawArrow\<close> of DiagramCanvas.tsx (its parameter \<open>size\<close> is \<open>sz\<close> here).\<close>

definition drawArrow :: "jsnum \<Rightarrow> jsnum \<Rightarrow> jsnum \<Rightarrow> jsnum \<Rightarrow> real \<Rightarrow> string \<Rightarrow> DrawOp" where
  "drawArrow x y dx dy sz color =
    (let angle = jbin atan2 dy dx;
         arrowAngle = pi / 6
     in FillTriangle
          \<lparr> np_x = x, np_y = y \<rparr>
          \<lparr> np_x = x - Num sz * jun cos (angle - Num arrowAngle),
            np_y = y - Num sz * jun sin (angle - Num arrowAngle) \<rparr>
          \<lparr> np_x = x - Num sz * jun cos (angle + Num arrowAngle),
            np_y = y - Num sz * jun sin (angle + Num arrowAngle) \<rparr>
          color)"

text \<open>
  The callback of \<open>state.connections.forEach\<close> in \<open>drawDiagram\<close> (raster backend). The
  rescaled points \<open>cp1\<close> and \<open>cp2\<close> are computed, as in the source, and then not used:
  \<open>bezierCurveTo\<close> and the arrow both receive the connection's stored control points.
\<close>

definition drawConnection :: "DiagramState \<Rightarrow> DiagramParams \<Rightarrow> Connection \<Rightarrow> DrawOp list" where
  "drawConnection state params conn =
    (case find (\<lambda>n. node_id n = conn_from conn) (nodes state) of
       None \<Rightarrow> []
     | Some fromNode \<Rightarrow>
    (case find (\<lambda>n. node_id n = conn_to conn) (nodes state) of
       None \<Rightarrow> []
     | Some toNode \<Rightarrow>
      (let startPoint = getConnectionPoint fromNode toNode (arrowGap params);
           endPoint = getConnectionPoint toNode fromNode (arrowGap params);
           dash = (if dashed conn then Some (dashLength params, dashGap params) else None);
           fromX = node_x fromNode + node_width fromNode / 2;
           fromY = node_y fromNode + node_height fromNode / 2;
           toX = node_x toNode + node_width toNode / 2;
           toY = node_y toNode + node_height toNode / 2;
           totalDx = toX - fromX;
           totalDy = toY - fromY;
           totalDist = sqrt (totalDx * totalDx + totalDy * totalDy)
       in if totalDist = 0 then []
          else
           (let startRatio = sqrt ((pt_x startPoint - fromX) ^ 2 + (pt_y startPoint - fromY) ^ 2)
                               / totalDist;
                endRatio = 1 - sqrt ((toX - pt_x endPoint) ^ 2 + (toY - pt_y endPoint) ^ 2)
                               / totalDist;
                cp1 = \<lparr> np_x = lerpN (Num (pt_x startPoint)) (np_x (controlPoint1 conn))
                                 (Num (1 / (1 - startRatio))),
                        np_y = lerpN (Num (pt_y startPoint)) (np_y (controlPoint1 conn))
                                 (Num (1 / (1 - startRatio))) \<rparr>;
                cp2 = \<lparr> np_x = lerpN (Num (pt_x endPoint)) (np_x (controlPoint2 conn))
                                 (Num (1 / endRatio)),
                        np_y = lerpN (Num (pt_y endPoint)) (np_y (controlPoint2 conn))
                                 (Num (1 / endRatio)) \<rparr>
            in StrokeBezier startPoint (controlPoint1 conn) (controlPoint2 conn) endPoint
                 (strokeColor params) (connectionThickness params) dash
               # (if hasArrow conn then
                    (let arrowPos = 0.5;
                         point = getPointOnBezier (npoint startPoint) (controlPoint1 conn)
                                   (controlPoint2 conn) (npoint endPoint) arrowPos;
                         tangent = getTangentOnBezier (npoint startPoint) (controlPoint1 conn)
                                     (controlPoint2 conn) (npoint endPoint) arrowPos
                     in [drawArrow (np_x point) (np_y point) (np_x tangent) (np_y tangent)
                           (arrowSize params) (strokeColor params)])
                  else [])))))"

text \<open>
  The callback of \<open>state.connections.forEach\<close> in \<open>generateSvgFromDiagramState\<close> (vector
  backend): the path and the arrow both use the rescaled points \<open>cp1\<close> and \<open>cp2\<close>.
\<close>

definition svgConnection :: "DiagramState \<Rightarrow> DiagramParams \<Rightarrow> Connection \<Rightarrow> DrawOp list" where
  "svgConnection state params conn =
    (case find (\<lambda>n. node_id n = conn_from conn) (nodes state) of
       None \<Rightarrow> []
     | Some fromNode \<Rightarrow>
    (case find (\<lambda>n. node_id n = conn_to conn) (nodes state) of
       None \<Rightarrow> []
     | Some toNode \<Rightarrow>
      (let startPoint = getConnectionPoint fromNode toNode (arrowGap params);
           endPoint = getConnectionPoint toNode fromNode (arrowGap params);
           fromX = node_x fromNode + node_width fromNode / 2;
           fromY = node_y fromNode + node_height fromNode / 2;
           toX = node_x toNode + node_width toNode / 2;
           toY = node_y toNode + node_height toNode / 2;
           totalDx = toX - fromX;
           totalDy = toY - fromY;
           totalDist = sqrt (totalDx * totalDx + totalDy * totalDy)
       in if totalDist = 0 then []
          else
           (let startRatio = sqrt ((pt_x startPoint - fromX) ^ 2 + (pt_y startPoint - fromY) ^ 2)
                               / totalDist;
                endRatio = 1 - sqrt ((toX - pt_x endPoint) ^ 2 + (toY - pt_y endPoint) ^ 2)
                               / totalDist;
                cp1 = \<lparr> np_x = lerpN (Num (pt_x startPoint)) (np_x (controlPoint1 conn))
                                 (Num (1 / (1 - startRatio))),
                        np_y = lerpN (Num (pt_y startPoint)) (np_y (controlPoint1 conn))
                                 (Num (1 / (1 - startRatio))) \<rparr>;
                cp2 = \<lparr> np_x = lerpN (Num (pt_x endPoint)) (np_x (controlPoint2 conn))
                                 (Num (1 / endRatio)),
                        np_y = lerpN (Num (pt_y endPoint)) (np_y (controlPoint2 conn))
                                 (Num (1 / endRatio)) \<rparr>;
                dash = (if dashed conn then Some (dashLength params, dashGap params) else None)
            in StrokeBezier startPoint cp1 cp2 endPoint
                 (strokeColor params) (connectionThickness params) dash
               # (if hasArrow conn then
                    (let arrowPos = 0.5;
                         point = getPointOnBezier (npoint startPoint) cp1 cp2 (npoint endPoint)
                                   arrowPos;
                         tangent = getTangentOnBezier (npoint startPoint) cp1 cp2
                                     (npoint endPoint) arrowPos;
                         angle = jbin atan2 (np_y tangent) (np_x tangent);
                         arrowAngle = pi / 6
                     in [FillTriangle
                           \<lparr> np_x = np_x point, np_y = np_y point \<rparr>
                           \<lparr> np_x = np_x point
                                    - Num (arrowSize params) * jun cos (angle - Num arrowAngle),
                             np_y = np_y point
                                    - Num (arrowSize params) * jun sin (angle - Num arrowAngle) \<rparr>
                           \<lparr> np_x = np_x point
                                    - Num (arrowSize params) * jun cos (angle + Num arrowAngle),
                             np_y = np_y point
                                    - Num (arrowSize params) * jun sin (angle + Num arrowAngle) \<rparr>
                           (strokeColor params)])
                  else [])))))"

section \<open>The seeded generator (utils/diagram-generator.ts)\<close>

text \<open>The class \<open>SeededRandom\<close>: its only field is the seed.\<close>

record SeededRandom =
  seed :: real

text \<open>The value \<open>random()\<close> returns when the seed is \<open>s\<close>: the fractional part of \<open>sin(s) * 10000\<close>.\<close>

definition draw :: "real \<Rightarrow> real" where
  "draw s = (let x = sin s * 10000 in x - of_int \<lfloor>x\<rfloor>)"

text \<open>\<open>random()\<close>: the value for the current seed, and the object with \<open>seed++\<close> applied.\<close>

definition random :: "SeededRandom \<Rightarrow> real \<times> SeededRandom" where
  "random rng = (draw (seed rng), rng\<lparr> seed := seed rng + 1 \<rparr>)"

text \<open>The method \<open>range(min, max)\<close>.\<close>

definition range_rng :: "real \<Rightarrow> real \<Rightarrow> SeededRandom \<Rightarrow> real \<times> SeededRandom" where
  "range_rng lo hi rng = (let (r, rng') = random rng in (lo + r * (hi - lo), rng'))"

text \<open>\<open>Math.round\<close> rounds half up; \<open>a % b\<close> takes the sign of \<open>a\<close>.\<close>

definition js_round :: "real \<Rightarrow> int" where
  "js_round v = \<lfloor>v + 1 / 2\<rfloor>"

definition js_rem :: "int \<Rightarrow> int \<Rightarrow> int" where
  "js_rem a b = sgn a * (\<bar>a\<bar> mod \<bar>b\<bar>)"

text \<open>
  The body of the node loop (source lines 35 to 71) for index \<open>i\<close>: six draws in the
  order jitterX, jitterY, spreadX, spreadY, width, height. \<open>nodeCount'\<close> is the rounded
  node count.
\<close>

definition makeNode :: "DiagramParams \<Rightarrow> int \<Rightarrow> int \<Rightarrow> SeededRandom \<Rightarrow> Node \<times> SeededRandom" where
  "makeNode params nodeCount' i rng0 =
    (let width = canvasWidth params;
         height = canvasHeight params;
         margin = 80;
         baseX = margin + (width - 2 * margin) * (of_int i / of_int nodeCount');
         baseY = margin + (height - 2 * margin) * 0.5;
         (r1, rng1) = random rng0;
         jitterX = (r1 - 0.5) * (width - 2 * margin) * positionJitter params;
         (r2, rng2) = random rng1;
         jitterY = (r2 - 0.5) * (height - 2 * margin) * positionJitter params;
         (r3, rng3) = random rng2;
         spreadX = (r3 - 0.5) * (width - 2 * margin) * layoutSpread params;
         (r4, rng4) = random rng3;
         spreadY = (r4 - 0.5) * (height - 2 * margin) * layoutSpread params;
         biasX = (horizontalBias params - 0.5) * (width - 2 * margin) * 0.3;
         biasY = (verticalBias params - 0.5) * (height - 2 * margin) * 0.3;
         x = baseX + jitterX + spreadX + biasX;
         y = baseY + jitterY + spreadY + biasY;
         (baseWidth, rng5) =
            range_rng (nodeMinWidth params)
              (nodeMinWidth params
                 + (nodeMaxWidth params - nodeMinWidth params) * sizeVariation params) rng4;
         (baseHeight, rng6) =
            range_rng (nodeMinHeight params)
              (nodeMinHeight params
                 + (nodeMaxHeight params - nodeMinHeight params) * sizeVariation params) rng5;
         nodeWidth = baseWidth * nodeScale params;
         nodeHeight = baseHeight * nodeScale params
     in (\<lparr> node_id = i,
           node_x = max margin (min (width - margin - nodeWidth) x),
           node_y = max margin (min (height - margin - nodeHeight) y),
           node_width = nodeWidth,
           node_height = nodeHeight,
           node_label = (case js_index (nodeTitles params) i of
                           Some title \<Rightarrow> (if title = [] then None else Some title)
                         | None \<Rightarrow> None) \<rparr>,
         rng6))"

text \<open>The node loop: the indices still to visit, the generator and the list so far.\<close>

fun placeNodes ::
  "DiagramParams \<Rightarrow> int \<Rightarrow> nat list \<Rightarrow> SeededRandom \<Rightarrow> Node list \<Rightarrow> Node list \<times> SeededRandom" where
  "placeNodes params nodeCount' [] rng out = (out, rng)"
| "placeNodes params nodeCount' (i # rest) rng out =
     (let (node, rng') = makeNode params nodeCount' (int i) rng
      in placeNodes params nodeCount' rest rng' (out @ [node]))"

text \<open>
  The target selection of the connection loop (source lines 86 to 111): self loop, else
  forward, else backward, else random with the reassignment of a target equal to \<open>i\<close>.
  Every \<open>rng.random()\<close> stands left of its \<open>&&\<close>, so it is drawn whenever its test is
  reached.
\<close>

definition chooseTarget :: "DiagramParams \<Rightarrow> int \<Rightarrow> int \<Rightarrow> SeededRandom \<Rightarrow> int \<times> SeededRandom" where
  "chooseTarget params nodeCount' i rng0 =
    (let (r1, rng1) = random rng0 in
     if r1 < selfLoopChance params then (i, rng1)
     else
      (let forwardBias = flowDirectionality params;
           (r2, rng2) = random rng1 in
       if r2 < forwardBias \<and> i < nodeCount' - 1 then
         (let span = max 1 \<lfloor>of_int nodeCount' * downwardBias params * 0.5\<rfloor>;
              (r3, rng3) = random rng2
          in (min (nodeCount' - 1) (i + 1 + \<lfloor>r3 * of_int span\<rfloor>), rng3))
       else
         (let (r4, rng4) = random rng2 in
          if r4 < backwardConnectionFreq params \<and> i > 0 then
            (let (r5, rng5) = random rng4 in (\<lfloor>r5 * of_int i\<rfloor>, rng5))
          else
            (let (r6, rng6) = random rng4;
                 targetIndex = \<lfloor>r6 * of_int nodeCount'\<rfloor>
             in (if targetIndex = i then js_rem (i + 1) nodeCount' else targetIndex, rng6)))))"

text \<open>The mutable state of the connection loops.\<close>

record GenState =
  gs_rng :: SeededRandom
  gs_connections :: "Connection list"
  gs_connectionId :: int

text \<open>
  One pass of the inner loop body (source lines 84 to 181) for source node \<open>i\<close>. Reading
  \<open>.x\<close> of a node that \<open>nodes[...]\<close> did not find raises. The values \<open>midX\<close>, \<open>midY\<close>,
  \<open>cp1Distance\<close> and \<open>cp2Distance\<close> of the source are never read and are left out.
  \<open>perpX\<close> and \<open>perpY\<close> are quotients by the chord length: NaN when it is zero, and then so
  are all four control point coordinates.
\<close>

definition connectOnce ::
  "DiagramParams \<Rightarrow> int \<Rightarrow> Node list \<Rightarrow> int \<Rightarrow> GenState \<Rightarrow> error + GenState" where
  "connectOnce params nodeCount' nodeList i st =
    (let (r0, rng0) = random (gs_rng st) in
     if r0 > connectionDensity params then Inr (st\<lparr> gs_rng := rng0 \<rparr>)
     else
      (let (targetIndex, rng1) = chooseTarget params nodeCount' i rng0 in
       case js_index nodeList i of
         None \<Rightarrow> Inl TypeError
       | Some fromNode \<Rightarrow>
      (case js_index nodeList targetIndex of
         None \<Rightarrow> Inl TypeError
       | Some toNode \<Rightarrow>
        (let fromX = node_x fromNode + node_width fromNode / 2;
             fromY = node_y fromNode + node_height fromNode / 2;
             toX = node_x toNode + node_width toNode / 2;
             toY = node_y toNode + node_height toNode / 2;
             dx = toX - fromX;
             dy = toY - fromY;
             distance = sqrt (dx * dx + dy * dy);
             (r7, rng2) = random rng1;
             curveFactor = curveIntensity params * (1 + (r7 - 0.5) * curveVariation params);
             perpX = js_div (- dy) distance;
             perpY = js_div dx distance;
             (r8, rng3) = random rng2;
             offset = distance * curveFactor * (r8 - 0.5);
             ctrl1 = \<lparr> np_x = Num (fromX + dx * 0.33) + perpX * Num offset * Num 0.7,
                       np_y = Num (fromY + dy * 0.33) + perpY * Num offset * Num 0.7 \<rparr>;
             ctrl2 = \<lparr> np_x = Num (fromX + dx * 0.67) + perpX * Num offset * Num 1.3,
                       np_y = Num (fromY + dy * 0.67) + perpY * Num offset * Num 1.3 \<rparr>;
             (r9, rng4) = random rng3;
             (r10, rng5) = random rng4;
             primary = \<lparr> conn_id = gs_connectionId st,
                         conn_from = i,
                         conn_to = targetIndex,
                         curve = curveFactor,
                         dashed = (r9 < dashedFrequency params),
                         hasArrow = (r10 < arrowFrequency params),
                         controlPoint1 = ctrl1,
                         controlPoint2 = ctrl2 \<rparr>;
             (r11, rng6) = random rng5
         in if r11 < multiConnectionChance params \<and> i \<noteq> targetIndex then
              (let offset2 = - offset * 0.6;
                   (r12, rng7) = random rng6;
                   (r13, rng8) = random rng7;
                   mirrored = \<lparr> conn_id = gs_connectionId st + 1,
                                conn_from = i,
                                conn_to = targetIndex,
                                curve = curveFactor * 0.8,
                                dashed = (r12 < dashedFrequency params),
                                hasArrow = (r13 < arrowFrequency params),
                                controlPoint1 =
                                  \<lparr> np_x = Num (fromX + dx * 0.33)
                                             + perpX * Num offset2 * Num 0.7,
                                    np_y = Num (fromY + dy * 0.33)
                                             + perpY * Num offset2 * Num 0.7 \<rparr>,
                                controlPoint2 =
                                  \<lparr> np_x = Num (fromX + dx * 0.67)
                                             + perpX * Num offset2 * Num 1.3,
                                    np_y = Num (fromY + dy * 0.67)
                                             + perpY * Num offset2 * Num 1.3 \<rparr> \<rparr>
               in Inr \<lparr> gs_rng = rng8,
                        gs_connections = gs_connections st @ [primary, mirrored],
                        gs_connectionId = gs_connectionId st + 2 \<rparr>)
            else
              Inr \<lparr> gs_rng = rng6,
                    gs_connections = gs_connections st @ [primary],
                    gs_connectionId = gs_connectionId st + 1 \<rparr>))))"

text \<open>The inner loop \<open>for (let j = 0; j < connectionsFromNode; j++)\<close>, by passes left.\<close>

fun connectFromNode ::
  "DiagramParams \<Rightarrow> int \<Rightarrow> Node list \<Rightarrow> int \<Rightarrow> nat \<Rightarrow> GenState \<Rightarrow> error + GenState" where
  "connectFromNode params nodeCount' nodeList i 0 st = Inr st"
| "connectFromNode params nodeCount' nodeList i (Suc k) st =
     (case connectOnce params nodeCount' nodeList i st of
        Inl e \<Rightarrow> Inl e
      | Inr st' \<Rightarrow> connectFromNode params nodeCount' nodeList i k st')"

text \<open>The outer loop over the source nodes.\<close>

fun connectAll ::
  "DiagramParams \<Rightarrow> int \<Rightarrow> Node list \<Rightarrow> nat list \<Rightarrow> GenState \<Rightarrow> error + GenState" where
  "connectAll params nodeCount' nodeList [] st = Inr st"
| "connectAll params nodeCount' nodeList (i # rest) st =
     (let connectionsFromNode =
            \<lfloor>1 + connectionDensity params * branchingFactor params * 5\<rfloor>
      in case connectFromNode params nodeCount' nodeList (int i) (nat connectionsFromNode) st of
           Inl e \<Rightarrow> Inl e
         | Inr st' \<Rightarrow> connectAll params nodeCount' nodeList rest st')"

definition generateDiagram :: "DiagramParams \<Rightarrow> error + DiagramState" where
  "generateDiagram params =
    (let rng = \<lparr> seed = randomSeed params \<rparr>;
         nodeCount' = js_round (nodeCount params);
         (nodeList, rng') = placeNodes params nodeCount' [0..<nat nodeCount'] rng []
     in case connectAll params nodeCount' nodeList [0..<nat nodeCount']
               \<lparr> gs_rng = rng', gs_connections = [], gs_connectionId = 0 \<rparr> of
          Inl e \<Rightarrow> Inl e
        | Inr st \<Rightarrow> Inr \<lparr> nodes = nodeList, connections = gs_connections st \<rparr>)"

section \<open>Relations between two runs of the generator\<close>

text \<open>
  Two generator objects yield the same stream of values: the \<open>k\<close>-th call of \<open>random()\<close>
  returns the same number on both, for every \<open>k\<close>.
\<close>

definition sameStream :: "SeededRandom \<Rightarrow> SeededRandom \<Rightarrow> bool" where
  "sameStream g h = (\<forall>k::nat. draw (seed g + real k) = draw (seed h + real k))"

text \<open>Two states of the connection loops agree but for the seeds, which yield the same stream.\<close>

definition sameProgress :: "GenState \<Rightarrow> GenState \<Rightarrow> bool" where
  "sameProgress u v =
     (gs_connections u = gs_connections v \<and> gs_connectionId u = gs_connectionId v \<and>
      sameStream (gs_rng u) (gs_rng v))"

section \<open>Example states\<close>

text \<open>A five-node and an eight-node state, for the cardinality-mismatch scenario.\<close>

definition five_nodes :: DiagramState where
  "five_nodes = \<lparr> nodes =
     [\<lparr> node_id = 0, node_x = 0, node_y = 0, node_width = 10, node_height = 10, node_label = None \<rparr>,
      \<lparr> node_id = 1, node_x = 10, node_y = 0, node_width = 10, node_height = 10, node_label = None \<rparr>,
      \<lparr> node_id = 2, node_x = 20, node_y = 0, node_width = 10, node_height = 10, node_label = None \<rparr>,
      \<lparr> node_id = 3, node_x = 30, node_y = 0, node_width = 10, node_height = 10, node_label = None \<rparr>,
      \<lparr> node_id = 4, node_x = 40, node_y = 0, node_width = 10, node_height = 10, node_label = None \<rparr>],
     connections = [] \<rparr>"

definition eight_nodes :: DiagramState where
  "eight_nodes = \<lparr> nodes =
     [\<lparr> node_id = 0, node_x = 100, node_y = 50, node_width = 20, node_height = 20, node_label = None \<rparr>,
      \<lparr> node_id = 1, node_x = 110, node_y = 50, node_width = 20, node_height = 20, node_label = None \<rparr>,
      \<lparr> node_id = 2, node_x = 120, node_y = 50, node_width = 20, node_height = 20, node_label = None \<rparr>,
      \<lparr> node_id = 3, node_x = 130, node_y = 50, node_width = 20, node_height = 20, node_label = None \<rparr>,
      \<lparr> node_id = 4, node_x = 140, node_y = 50, node_width = 20, node_height = 20, node_label = None \<rparr>,
      \<lparr> node_id = 5, node_x = 150, node_y = 50, node_width = 20, node_height = 20, node_label = None \<rparr>,
      \<lparr> node_id = 6, node_x = 160, node_y = 50, node_width = 20, node_height = 20, node_label = None \<rparr>,
      \<lparr> node_id = 7, node_x = 170, node_y = 50, node_width = 20, node_height = 20, node_label = None \<rparr>],
     connections = [] \<rparr>"


text \<open>The initial parameter set of App.tsx.\<close>

definition initial_params :: DiagramParams where
  "initial_params = \<lparr>
     nodeCount = 8, connectionDensity = 0.4, layoutSpread = 0.7, verticalBias = 0.5,
     horizontalBias = 0.5,
     nodeMinWidth = 60, nodeMaxWidth = 120, nodeMinHeight = 20, nodeMaxHeight = 40,
     nodeRoundness = 2, nodeThickness = 2, nodeScale = 1,
     curveIntensity = 0.6, curveVariation = 0.5, connectionThickness = 1.5, arrowSize = 8,
     arrowFrequency = 0.7, dashedFrequency = 0.3, dashLength = 5, dashGap = 5, arrowGap = 10,
     flowDirectionality = 0.6, downwardBias = 0.6, rightwardBias = 0.5,
     backwardConnectionFreq = 0.15,
     multiConnectionChance = 0.3, branchingFactor = 0.5, clusterTendency = 0.4,
     curveSmoothing = 0.8, controlPointDistance = 0.5, selfLoopChance = 0.05,
     parallelLineOffset = 12,
     randomSeed = 42, positionJitter = 0.2, sizeVariation = 0.6, styleVariation = 0.5,
     animationSpeed = 0.5, morphComplexity = 0.7,
     strokeColor = ''#ffffff'', fillColor = ''#000000'', backgroundColor = ''#1a1a1a'',
     canvasWidth = 1711, canvasHeight = 1400,
     nodeTitles = replicate 8 [] \<rparr>"

text \<open>
  Two 10 by 10 boxes on one horizontal line, joined by one solid connection with an
  arrow, whose control points lie above the chord.
\<close>

definition arrow_link :: Connection where
  "arrow_link = \<lparr> conn_id = 0, conn_from = 0, conn_to = 1, curve = 0.6, dashed = False,
     hasArrow = True,
     controlPoint1 = \<lparr> np_x = Num 37, np_y = Num 22 \<rparr>,
     controlPoint2 = \<lparr> np_x = Num 73, np_y = Num 22 \<rparr> \<rparr>"

definition left_box :: Node where
  "left_box = \<lparr> node_id = 0, node_x = 0, node_y = 0, node_width = 10, node_height = 10,
     node_label = None \<rparr>"

definition right_box :: Node where
  "right_box = \<lparr> node_id = 1, node_x = 100, node_y = 0, node_width = 10, node_height = 10,
     node_label = None \<rparr>"

definition two_boxes :: DiagramState where
  "two_boxes = \<lparr> nodes = [left_box, right_box], connections = [arrow_link] \<rparr>"

text \<open>
  A parameter set for a single node: every candidate edge is kept, self loops are switched
  off, and jitter, spread and size variation are zero, so that no result depends on the
  value of a draw. Its generated state is \<open>solo_state\<close>, whose one connection is a self
  loop with NaN control points.
\<close>

definition solo_params :: DiagramParams where
  "solo_params = initial_params \<lparr> nodeCount := 1, connectionDensity := 1, branchingFactor := 0,
     selfLoopChance := 0, multiConnectionChance := 0, dashedFrequency := 0, arrowFrequency := 1,
     curveVariation := 0, positionJitter := 0, layoutSpread := 0, sizeVariation := 0,
     canvasWidth := 800, canvasHeight := 600 \<rparr>"

definition solo_state :: DiagramState where
  "solo_state = \<lparr> nodes =
     [\<lparr> node_id = 0, node_x = 80, node_y = 300, node_width = 60, node_height = 20,
        node_label = None \<rparr>],
     connections =
     [\<lparr> conn_id = 0, conn_from = 0, conn_to = 0, curve = 3/5, dashed = False, hasArrow = True,
        controlPoint1 = \<lparr> np_x = NaN, np_y = NaN \<rparr>,
        controlPoint2 = \<lparr> np_x = NaN, np_y = NaN \<rparr> \<rparr>] \<rparr>"

text \<open>
  The same with two nodes, always a forward edge from the first and a backward edge from
  the second, and straight connections. Its generated state is \<open>pair_state\<close>.
\<close>

definition pair_params :: DiagramParams where
  "pair_params = solo_params \<lparr> nodeCount := 2, flowDirectionality := 1, downwardBias := 0,
     backwardConnectionFreq := 1, curveIntensity := 0 \<rparr>"

definition pair_state :: DiagramState where
  "pair_state = \<lparr> nodes =
     [\<lparr> node_id = 0, node_x = 80, node_y = 300, node_width = 60, node_height = 20,
        node_label = None \<rparr>,
      \<lparr> node_id = 1, node_x = 400, node_y = 300, node_width = 60, node_height = 20,
        node_label = None \<rparr>],
     connections =
     [\<lparr> conn_id = 0, conn_from = 0, conn_to = 1, curve = 0, dashed = False, hasArrow = True,
        controlPoint1 = \<lparr> np_x = Num (1078/5), np_y = Num 310 \<rparr>,
        controlPoint2 = \<lparr> np_x = Num (1622/5), np_y = Num 310 \<rparr> \<rparr>,
      \<lparr> conn_id = 1, conn_from = 1, conn_to = 0, curve = 0, dashed = False, hasArrow = True,
        controlPoint1 = \<lparr> np_x = Num (1622/5), np_y = Num 310 \<rparr>,
        controlPoint2 = \<lparr> np_x = Num (1078/5), np_y = Num 310 \<rparr> \<rparr>] \<rparr>"

text \<open>
  The two-node set on a canvas 1000 wide with the first node titled. Its generated state
  is \<open>named_state\<close>.
\<close>

definition named_params :: DiagramParams where
  "named_params = pair_params \<lparr> nodeTitles := [''in'', []], canvasWidth := 1000 \<rparr>"

definition named_state :: DiagramState where
  "named_state = \<lparr> nodes =
     [\<lparr> node_id = 0, node_x = 80, node_y = 300, node_width = 60, node_height = 20,
        node_label = Some ''in'' \<rparr>,
      \<lparr> node_id = 1, node_x = 500, node_y = 300, node_width = 60, node_height = 20,
        node_label = None \<rparr>],
     connections =
     [\<lparr> conn_id = 0, conn_from = 0, conn_to = 1, curve = 0, dashed = False, hasArrow = True,
        controlPoint1 = \<lparr> np_x = Num (1243/5), np_y = Num 310 \<rparr>,
        controlPoint2 = \<lparr> np_x = Num (1957/5), np_y = Num 310 \<rparr> \<rparr>,
      \<lparr> conn_id = 1, conn_from = 1, conn_to = 0, curve = 0, dashed = False, hasArrow = True,
        controlPoint1 = \<lparr> np_x = Num (1957/5), np_y = Num 310 \<rparr>,
        controlPoint2 = \<lparr> np_x = Num (1243/5), np_y = Num 310 \<rparr> \<rparr>] \<rparr>"

text \<open>The single-node set on a canvas 100 wide, narrower than the margins and the node.\<close>

definition narrow_params :: DiagramParams where
  "narrow_params = solo_params \<lparr> canvasWidth := 100 \<rparr>"

text \<open>The two-node set with forward edges switched off.\<close>

definition drift_params :: DiagramParams where
  "drift_params = pair_params \<lparr> flowDirectionality := 0 \<rparr>"

section \<open>Arithmetic with NaN\<close>

lemma jsnum_plus [simp]:
  "Num a + Num b = Num (a + b)" "NaN + v = NaN" "u + NaN = NaN"
  by (simp_all add: plus_jsnum_def jbin_def split: jsnum.splits)

lemma jsnum_minus [simp]:
  "Num a - Num b = Num (a - b)" "NaN - v = NaN" "u - NaN = NaN"
  by (simp_all add: minus_jsnum_def jbin_def split: jsnum.splits)

lemma jsnum_times [simp]:
  "Num a * Num b = Num (a * b)" "NaN * v = NaN" "u * NaN = NaN"
  by (simp_all add: times_jsnum_def jbin_def split: jsnum.splits)

lemma jbin_simps [simp]:
  "jbin f (Num a) (Num b) = Num (f a b)" "jbin f NaN v = NaN" "jbin f u NaN = NaN"
  by (simp_all add: jbin_def split: jsnum.splits)

lemma jun_simps [simp]: "jun f (Num a) = Num (f a)" "jun f NaN = NaN"
  by (simp_all add: jun_def)

lemma lerpN_Num: "lerpN (Num a) (Num b) (Num t) = Num (lerp a b t)"
  by (simp add: lerpN_def lerp_def)

lemma lerpN_NaN [simp]: "lerpN NaN b t = NaN" "lerpN a NaN t = NaN" "lerpN a b NaN = NaN"
  by (simp_all add: lerpN_def)

text \<open>The chord length is zero only when both of its components are.\<close>

lemma chord_zero_iff: "sqrt (dx * dx + dy * dy) = 0 \<longleftrightarrow> dx = 0 \<and> dy = 0"
proof -
  have "dx * dx + dy * dy = 0 \<longleftrightarrow> dx = 0 \<and> dy = 0"
    by (simp add: sum_squares_eq_zero_iff)
  then show ?thesis by simp
qed


section \<open>Properties of the interpolation\<close>

lemma push_loop_map:
  "(\<And>i. i \<in> set idx \<Longrightarrow> body (int i) = Inr (f i)) \<Longrightarrow>
   push_loop body idx out = Inr (out @ map f idx)"
  by (induction idx arbitrary: out) simp_all

lemma interpolateNode_in:
  assumes "i < max (length fs) (length ts)"
  shows "interpolateNode fs ts p (int i) =
     Inr (lerpNode (if i < length fs then fs ! i else ts ! i)
                   (if i < length ts then ts ! i else fs ! i) p)"
  using assms by (auto simp: interpolateNode_def js_index_def js_or_obj_def)

lemma interpolateConn_in:
  assumes "i < max (length fs) (length ts)"
  shows "interpolateConn fs ts p (int i) =
     Inr (lerpConn (if i < length fs then fs ! i else ts ! i)
                   (if i < length ts then ts ! i else fs ! i) p)"
  using assms by (auto simp: interpolateConn_def js_index_def js_or_obj_def)

lemma interpolateStates_eq:
  "interpolateStates a b p = Inr \<lparr> 
      nodes = map (\<lambda>i. lerpNode (if i < length (nodes a) then nodes a ! i else nodes b ! i) 
                                 (if i < length (nodes b) then nodes b ! i else nodes a ! i) p)
                 [0..<max (length (nodes a)) (length (nodes b))],
      connections = map (\<lambda>i. lerpConn (if i < length (connections a) then connections a ! i else connections b ! i)
                                       (if i < length (connections b) then connections b ! i else connections a ! i) p)
                 [0..<max (length (connections a)) (length (connections b))] \<rparr>"
proof -
  have n: "push_loop (interpolateNode (nodes a) (nodes b) p) [0..<max (length (nodes a)) (length (nodes b))] []
     = Inr ([] @ map (\<lambda>i. lerpNode (if i < length (nodes a) then nodes a ! i else nodes b ! i) 
                                 (if i < length (nodes b) then nodes b ! i else nodes a ! i) p)
                 [0..<max (length (nodes a)) (length (nodes b))])"
    by (rule push_loop_map) (simp add: interpolateNode_in)
  have c: "push_loop (interpolateConn (connections a) (connections b) p) [0..<max (length (connections a)) (length (connections b))] []
     = Inr ([] @ map (\<lambda>i. lerpConn (if i < length (connections a) then connections a ! i else connections b ! i)
                                       (if i < length (connections b) then connections b ! i else connections a ! i) p)
                 [0..<max (length (connections a)) (length (connections b))])"
    by (rule push_loop_map) (simp add: interpolateConn_in)
  show ?thesis unfolding interpolateStates_def Let_def n c by simp
qed

lemma len5: "length (nodes five_nodes) = 5" by (simp add: five_nodes_def)
lemma len8: "length (nodes eight_nodes) = 8" by (simp add: eight_nodes_def)


text \<open>
  Claim C1, as amended. \<open>interpolateStates\<close> never raises; its node list has length
  \<open>max |source.nodes| |target.nodes|\<close>; and at an index beyond one list's bound the
  node used for that side is the \<^emph>\<open>other\<close> list's node at the same index (the clamp
  \<open>Math.min(i, length - 1)\<close> is applied to the other list, where it is the identity), not
  the short list's last element.
\<close>

theorem interpolate_nodes_fallback:
  "\<exists>r. interpolateStates a b p = Inr r \<and>
       length (nodes r) = max (length (nodes a)) (length (nodes b)) \<and>
       (\<forall>i < length (nodes r). nodes r ! i =
           lerpNode (if i < length (nodes a) then nodes a ! i else nodes b ! i)
                    (if i < length (nodes b) then nodes b ! i else nodes a ! i) p)"
  by (simp add: interpolateStates_eq)


text \<open>
  The five-node source against the eight-node target: the result has eight nodes and
  indices 5 to 7 take both ends from the target's own node.
\<close>

theorem interpolate_nodes_fallback_witness:
  "\<exists>r. interpolateStates five_nodes eight_nodes (1/2) = Inr r \<and> length (nodes r) = 8 \<and>
       nodes r ! 4 = lerpNode (nodes five_nodes ! 4) (nodes eight_nodes ! 4) (1/2) \<and>
       nodes r ! 5 = lerpNode (nodes eight_nodes ! 5) (nodes eight_nodes ! 5) (1/2) \<and>
       nodes r ! 6 = lerpNode (nodes eight_nodes ! 6) (nodes eight_nodes ! 6) (1/2) \<and>
       nodes r ! 7 = lerpNode (nodes eight_nodes ! 7) (nodes eight_nodes ! 7) (1/2)"
proof -
  from interpolate_nodes_fallback [of five_nodes eight_nodes "1/2"]
  obtain r where r: "interpolateStates five_nodes eight_nodes (1/2) = Inr r"
    and n: "length (nodes r) = 8"
    and at: "\<And>i. i < 8 \<Longrightarrow> nodes r ! i =
           lerpNode (if i < 5 then nodes five_nodes ! i else nodes eight_nodes ! i)
                    (nodes eight_nodes ! i) (1/2)"
    by (auto simp: len5 len8)
  from at [of 4] at [of 5] at [of 6] at [of 7] r n show ?thesis by simp
qed


text \<open>
  Claim C1 as stated fails there: halfway through, node 5 sits at the target's
  \<open>x = 150\<close>, whereas interpolating from the source's last node would give \<open>95\<close>.
\<close>

theorem interpolate_clamp_counterexample:
  "interpolateStates five_nodes eight_nodes (1/2) \<noteq> Inl TypeError \<and>
   length (nodes (projr (interpolateStates five_nodes eight_nodes (1/2)))) = 8 \<and>
   node_x (nodes (projr (interpolateStates five_nodes eight_nodes (1/2))) ! 5) = 150 \<and>
   lerp (node_x (last (nodes five_nodes))) (node_x (nodes eight_nodes ! 5)) (1/2) = 95"
  by (simp add: interpolateStates_eq len5 len8 lerpNode_def lerp_def)
     (simp add: five_nodes_def eight_nodes_def)


section \<open>Properties of the easing function\<close>

lemma ease_low: "0 \<le> s \<Longrightarrow> s \<le> 1/2 \<Longrightarrow> 4 * s * s * s \<le> (1/2::real)"
proof -
  assume a: "0 \<le> s" "s \<le> 1/2"
  have "s ^ 3 \<le> (1/2) ^ 3" using a by (intro power_mono) auto
  then show ?thesis by (simp add: power3_eq_cube algebra_simps)
qed

lemma ease_high: "1/2 \<le> t \<Longrightarrow> t \<le> 1 \<Longrightarrow> (1/2::real) \<le> 1 - (- 2 * t + 2) ^ 3 / 2"
proof -
  assume a: "1/2 \<le> t" "t \<le> 1"
  have "(- 2 * t + 2) ^ 3 \<le> 1 ^ 3" using a by (intro power_mono) auto
  then show ?thesis by simp
qed

lemma ease_mono: 
  assumes "0 \<le> s" "s \<le> t" "t \<le> 1"
  shows "easeInOutCubic s \<le> easeInOutCubic t"
proof -
  consider "t < 1/2" | "s < 1/2" "1/2 \<le> t" | "1/2 \<le> s" by linarith
  then show ?thesis
  proof cases
    case 1
    have "s ^ 3 \<le> t ^ 3" using assms by (intro power_mono) auto
    then show ?thesis using 1 assms by (simp add: easeInOutCubic_def power3_eq_cube algebra_simps)
  next
    case 2
    show ?thesis using 2 assms ease_low[of s] ease_high[of t] by (simp add: easeInOutCubic_def)
  next
    case 3
    have "(- 2 * t + 2) ^ 3 \<le> (- 2 * s + 2) ^ 3" using assms by (intro power_mono) auto
    then show ?thesis using 3 assms by (simp add: easeInOutCubic_def)
  qed
qed


text \<open>
  Claim C9. \<open>easeInOutCubic\<close> is \<open>4t\<^sup>3\<close> below one half and \<open>1 - (-2t+2)\<^sup>3/2\<close> from
  there on, it maps 0 to 0 and 1 to 1, and it is non-decreasing on \<open>[0, 1]\<close>.
\<close>

theorem easeInOutCubic_properties:
  "easeInOutCubic t = (if t < 1/2 then 4 * t ^ 3 else 1 - (- 2 * t + 2) ^ 3 / 2) \<and>
   easeInOutCubic 0 = 0 \<and> easeInOutCubic 1 = 1 \<and>
   (0 \<le> s \<and> s \<le> u \<and> u \<le> 1 \<longrightarrow> easeInOutCubic s \<le> easeInOutCubic u)"
proof (intro conjI impI)
  show "easeInOutCubic t = (if t < 1/2 then 4 * t ^ 3 else 1 - (- 2 * t + 2) ^ 3 / 2)"
    by (simp add: easeInOutCubic_def power3_eq_cube)
  show "easeInOutCubic 0 = 0" by (simp add: easeInOutCubic_def)
  show "easeInOutCubic 1 = 1" by (simp add: easeInOutCubic_def)
  assume "0 \<le> s \<and> s \<le> u \<and> u \<le> 1"
  then show "easeInOutCubic s \<le> easeInOutCubic u" by (simp add: ease_mono)
qed


theorem easeInOutCubic_properties_witness:
  "(0::real) \<le> 1/4 \<and> (1/4::real) \<le> 3/4 \<and> (3/4::real) \<le> 1 \<and>
   easeInOutCubic (1/4) \<le> easeInOutCubic (3/4)"
  using easeInOutCubic_properties [of 0 "1/4" "3/4"] by simp


section \<open>The two renderers on one connection\<close>

lemma atan2_right: "0 < x \<Longrightarrow> atan2 0 x = 0" by (simp add: atan2_def)
lemma atan2_left: "x < 0 \<Longrightarrow> atan2 0 x = pi" by (simp add: atan2_def)

lemma sqrt_sq_plus0: "0 \<le> a \<Longrightarrow> sqrt (a * a) = a"
  by (simp add: real_sqrt_mult)

lemma start_two_boxes:
  "getConnectionPoint left_box right_box 10 = \<lparr> pt_x = 20, pt_y = 5 \<rparr>"
  by (simp add: getConnectionPoint_def left_box_def right_box_def atan2_right Let_def)

lemma end_two_boxes:
  "getConnectionPoint right_box left_box 10 = \<lparr> pt_x = 90, pt_y = 5 \<rparr>"
  by (simp add: getConnectionPoint_def left_box_def right_box_def atan2_left Let_def)

lemma find_two_boxes:
  "find (\<lambda>n. node_id n = conn_from arrow_link) (nodes two_boxes) = Some left_box"
  "find (\<lambda>n. node_id n = conn_to arrow_link) (nodes two_boxes) = Some right_box"
  by (simp_all add: two_boxes_def arrow_link_def left_box_def right_box_def)

lemma sq100: "sqrt 10000 = 100" using sqrt_sq_plus0[of 100] by simp
lemma sq15: "sqrt 225 = 15" using sqrt_sq_plus0[of 15] by simp

lemma raster_two_boxes:
  "drawConnection two_boxes initial_params arrow_link =
     [StrokeBezier \<lparr> pt_x = 20, pt_y = 5 \<rparr> \<lparr> np_x = Num 37, np_y = Num 22 \<rparr>
        \<lparr> np_x = Num 73, np_y = Num 22 \<rparr> \<lparr> pt_x = 90, pt_y = 5 \<rparr> ''#ffffff'' (3/2) None,
      drawArrow (Num 55) (Num (71/4)) (Num (159/2)) (Num 0) 8 ''#ffffff'']"
  unfolding drawConnection_def find_two_boxes option.case
  apply (simp add: initial_params_def start_two_boxes end_two_boxes Let_def)
  apply (simp add: left_box_def right_box_def arrow_link_def sq100 sq15 getPointOnBezier_def
      getTangentOnBezier_def npoint_def Let_def)
  done

lemma svg_two_boxes:
  "svgConnection two_boxes initial_params arrow_link =
     [StrokeBezier \<lparr> pt_x = 20, pt_y = 5 \<rparr> \<lparr> np_x = Num 40, np_y = Num 25 \<rparr>
        \<lparr> np_x = Num 70, np_y = Num 25 \<rparr> \<lparr> pt_x = 90, pt_y = 5 \<rparr> ''#ffffff'' (3/2) None,
      drawArrow (Num 55) (Num 20) (Num 75) (Num 0) 8 ''#ffffff'']"
  unfolding svgConnection_def find_two_boxes option.case
  apply (simp add: initial_params_def start_two_boxes end_two_boxes Let_def)
  apply (simp add: left_box_def right_box_def arrow_link_def sq100 sq15 getPointOnBezier_def
      getTangentOnBezier_def npoint_def Let_def lerpN_Num lerp_def drawArrow_def)
  done

text \<open>
  Claim C2, evaluated where the code departs from it. For the two boxes, the trimmed
  chord runs from \<open>(20, 5)\<close> to \<open>(90, 5)\<close> and the rescaled control points are \<open>(40, 25)\<close>
  and \<open>(70, 25)\<close> (start ratio \<open>15/100\<close>, end ratio \<open>85/100\<close>). The vector backend strokes
  through them; the raster backend strokes through the stored control points \<open>(37, 22)\<close>
  and \<open>(73, 22)\<close>.
\<close>

theorem raster_strokes_stored_control_points:
  "hd (svgConnection two_boxes initial_params arrow_link) =
     StrokeBezier \<lparr> pt_x = 20, pt_y = 5 \<rparr> \<lparr> np_x = Num 40, np_y = Num 25 \<rparr>
       \<lparr> np_x = Num 70, np_y = Num 25 \<rparr> \<lparr> pt_x = 90, pt_y = 5 \<rparr> ''#ffffff'' (3/2) None \<and>
   hd (drawConnection two_boxes initial_params arrow_link) =
     StrokeBezier \<lparr> pt_x = 20, pt_y = 5 \<rparr> (controlPoint1 arrow_link)
       (controlPoint2 arrow_link) \<lparr> pt_x = 90, pt_y = 5 \<rparr> ''#ffffff'' (3/2) None \<and>
   controlPoint1 arrow_link = \<lparr> np_x = Num 37, np_y = Num 22 \<rparr> \<and>
   controlPoint2 arrow_link = \<lparr> np_x = Num 73, np_y = Num 22 \<rparr> \<and>
   lerp 20 37 (1 / (1 - 15 / 100)) = 40 \<and> lerp 5 22 (1 / (1 - 15 / 100)) = 25 \<and>
   lerp 90 73 (1 / (85 / 100)) = 70 \<and> lerp 5 22 (1 / (85 / 100)) = 25"
  by (simp add: raster_two_boxes svg_two_boxes) (simp add: arrow_link_def lerp_def)







section \<open>The generator: draws and node placement\<close>

lemma draw_ge0: "0 \<le> draw s"
  by (simp add: draw_def Let_def)

lemma draw_lt1: "draw s < 1"
proof -
  have "sin s * 10000 < of_int \<lfloor>sin s * 10000\<rfloor> + 1" by linarith
  then show ?thesis unfolding draw_def Let_def by linarith
qed

lemma random_lit: "random \<lparr> seed = s \<rparr> = (draw s, \<lparr> seed = s + 1 \<rparr>)"
  by (simp add: random_def)

lemma range_rng_lit: "range_rng lo hi \<lparr> seed = s \<rparr> = (lo + draw s * (hi - lo), \<lparr> seed = s + 1 \<rparr>)"
  by (simp add: range_rng_def random_lit)

lemma floor_draw_mult:
  assumes "0 < k"
  shows "0 \<le> \<lfloor>draw s * of_int k\<rfloor>" and "\<lfloor>draw s * of_int k\<rfloor> < k"
proof -
  have "0 \<le> draw s * of_int k" using assms draw_ge0 [of s] by simp
  then show "0 \<le> \<lfloor>draw s * of_int k\<rfloor>" by simp
  have "draw s * of_int k < 1 * of_int k"
    using assms draw_lt1 [of s] by (intro mult_strict_right_mono) simp_all
  then show "\<lfloor>draw s * of_int k\<rfloor> < k" by (simp add: floor_less_iff)
qed

lemma js_rem_pos: "0 \<le> a \<Longrightarrow> 0 < b \<Longrightarrow> js_rem a b = a mod b"
  by (cases "a = 0") (simp_all add: js_rem_def)

lemma makeNode_rng: "snd (makeNode p n i \<lparr> seed = s \<rparr>) = \<lparr> seed = s + 6 \<rparr>"
  by (simp add: makeNode_def random_lit range_rng_lit Let_def)

lemma makeNode_id: "node_id (fst (makeNode p n i rng)) = i"
  by (cases rng) (simp add: makeNode_def random_lit range_rng_lit Let_def)

lemma placeNodes_upt:
  "placeNodes p n [a..<b] \<lparr> seed = s \<rparr> out =
     (out @ map (\<lambda>i. fst (makeNode p n (int i) \<lparr> seed = s + 6 * real (i - a) \<rparr>)) [a..<b],
      \<lparr> seed = s + 6 * real (b - a) \<rparr>)"
proof (induction "b - a" arbitrary: a s out)
  case 0
  then show ?case by simp
next
  case (Suc d)
  then have ab: "a < b" and d: "d = b - Suc a" by simp_all
  have shift: "map (\<lambda>i. fst (makeNode p n (int i) \<lparr> seed = s + 6 + 6 * real (i - Suc a) \<rparr>)) [Suc a..<b]
      = map (\<lambda>i. fst (makeNode p n (int i) \<lparr> seed = s + 6 * real (i - a) \<rparr>)) [Suc a..<b]"
  proof (rule map_cong [OF refl])
    fix i assume "i \<in> set [Suc a..<b]"
    then have "Suc a \<le> i" by simp
    then have "s + 6 + 6 * real (i - Suc a) = s + 6 * real (i - a)"
      by (simp add: Suc_diff_le algebra_simps of_nat_diff)
    then show "fst (makeNode p n (int i) \<lparr> seed = s + 6 + 6 * real (i - Suc a) \<rparr>)
       = fst (makeNode p n (int i) \<lparr> seed = s + 6 * real (i - a) \<rparr>)" by simp
  qed
  have fin: "s + 6 + 6 * real (b - Suc a) = s + 6 * real (b - a)"
    using ab by (simp add: algebra_simps of_nat_diff Suc_diff_le)
  have "placeNodes p n [a..<b] \<lparr> seed = s \<rparr> out =
     placeNodes p n [Suc a..<b] \<lparr> seed = s + 6 \<rparr> (out @ [fst (makeNode p n (int a) \<lparr> seed = s \<rparr>)])"
    using ab by (simp add: upt_conv_Cons split_beta makeNode_rng)
  also have "\<dots> = ((out @ [fst (makeNode p n (int a) \<lparr> seed = s \<rparr>)]) @
       map (\<lambda>i. fst (makeNode p n (int i) \<lparr> seed = s + 6 + 6 * real (i - Suc a) \<rparr>)) [Suc a..<b],
      \<lparr> seed = s + 6 + 6 * real (b - Suc a) \<rparr>)"
    using Suc.hyps(1) [OF d] .
  finally show ?case using ab by (simp add: shift fin upt_conv_Cons)
qed


section \<open>The generator: target selection\<close>

lemma chooseTarget_fst:
  "fst (chooseTarget p n i \<lparr> seed = s \<rparr>) =
     (if draw s < selfLoopChance p then i
      else if draw (s + 1) < flowDirectionality p \<and> i < n - 1 then
        min (n - 1) (i + 1 + \<lfloor>draw (s + 2) * of_int (max 1 \<lfloor>of_int n * downwardBias p * 0.5\<rfloor>)\<rfloor>)
      else if draw (s + 2) < backwardConnectionFreq p \<and> 0 < i then \<lfloor>draw (s + 3) * of_int i\<rfloor>
      else if \<lfloor>draw (s + 3) * of_int n\<rfloor> = i then js_rem (i + 1) n
      else \<lfloor>draw (s + 3) * of_int n\<rfloor>)"
  by (simp add: chooseTarget_def random_lit Let_def add.commute)

lemma target_shape_range:
  fixes i n k b t r :: int
  assumes "0 \<le> i" "i < n" "0 \<le> k" "0 < i \<longrightarrow> 0 \<le> b \<and> b < i" "0 \<le> t \<and> t < n" "0 \<le> r \<and> r < n"
  shows "0 \<le> (if A then i else if B \<and> i < n - 1 then min (n - 1) (i + 1 + k)
               else if C \<and> 0 < i then b else if t = i then r else t) \<and>
         (if A then i else if B \<and> i < n - 1 then min (n - 1) (i + 1 + k)
               else if C \<and> 0 < i then b else if t = i then r else t) < n"
  using assms by auto

lemma target_shape_noself:
  fixes i n k b t r :: int
  assumes "0 \<le> i" "i < n" "0 \<le> k" "0 < i \<longrightarrow> 0 \<le> b \<and> b < i" "r \<noteq> i" "\<not> A"
  shows "(if A then i else if B \<and> i < n - 1 then min (n - 1) (i + 1 + k)
               else if C \<and> 0 < i then b else if t = i then r else t) \<noteq> i"
  using assms by auto

lemma js_rem_succ_range: "0 \<le> i \<Longrightarrow> i < n \<Longrightarrow> 0 \<le> js_rem (i + 1) n \<and> js_rem (i + 1) n < n"
  by (simp add: js_rem_pos)

lemma js_rem_succ_neq:
  assumes "0 \<le> i" "i < n" "n \<noteq> 1"
  shows "js_rem (i + 1) n \<noteq> i"
proof -
  have n: "1 < n" using assms by simp
  have "js_rem (i + 1) n = (i + 1) mod n" using assms n by (simp add: js_rem_pos)
  also have "\<dots> \<noteq> i"
  proof (cases "i + 1 < n")
    case True then show ?thesis using assms by simp
  next
    case False
    then have "i + 1 = n" using assms by simp
    then show ?thesis using assms n by simp
  qed
  finally show ?thesis .
qed

lemma chooseTarget_range:
  assumes "0 \<le> i" "i < n"
  shows "0 \<le> fst (chooseTarget p n i rng) \<and> fst (chooseTarget p n i rng) < n"
proof -
  obtain s where rng: "rng = \<lparr> seed = s \<rparr>" by (cases rng) simp
  have n: "0 < n" using assms by simp
  show ?thesis
    unfolding rng chooseTarget_fst
    by (rule target_shape_range [OF assms])
       (use floor_draw_mult n js_rem_succ_range [OF assms] in simp_all)
qed

lemma chooseTarget_noself:
  assumes "0 \<le> i" "i < n" "n \<noteq> 1" "selfLoopChance p = 0"
  shows "fst (chooseTarget p n i rng) \<noteq> i"
proof -
  obtain s where rng: "rng = \<lparr> seed = s \<rparr>" by (cases rng) simp
  have nosl: "\<not> draw s < selfLoopChance p" using draw_ge0 [of s] assms by simp
  show ?thesis
    unfolding rng chooseTarget_fst
    by (rule target_shape_noself [OF assms(1,2) _ _ js_rem_succ_neq [OF assms(1-3)] nosl])
       (use floor_draw_mult in simp_all)
qed


section \<open>The generator: the connection loops\<close>

lemma connectOnce_step:
  assumes "0 \<le> i" "i < n" "length ns = nat n"
  shows "\<exists>st' new. connectOnce p n ns i st = Inr st' \<and>
           gs_connections st' = gs_connections st @ new \<and>
           gs_connectionId st' = gs_connectionId st + int (length new) \<and>
           map conn_id new = map (\<lambda>k. gs_connectionId st + int k) [0..<length new] \<and>
           (\<forall>c \<in> set new. conn_from c = i \<and>
              conn_to c = fst (chooseTarget p n i (snd (random (gs_rng st)))) \<and>
              (conn_to c = i \<longrightarrow>
                 controlPoint1 c = \<lparr> np_x = NaN, np_y = NaN \<rparr> \<and>
                 controlPoint2 c = \<lparr> np_x = NaN, np_y = NaN \<rparr>))"
proof -
  let ?rng0 = "snd (random (gs_rng st))"
  let ?T = "fst (chooseTarget p n i ?rng0)"
  have T: "0 \<le> ?T \<and> ?T < n" by (rule chooseTarget_range [OF assms(1,2)])
  have fi: "js_index ns i = Some (ns ! nat i)" using assms by (simp add: js_index_def)
  have ft: "js_index ns ?T = Some (ns ! nat ?T)" using T assms by (simp add: js_index_def)
  show ?thesis
  proof (cases "fst (random (gs_rng st)) > connectionDensity p")
    case True
    then have "connectOnce p n ns i st = Inr (st\<lparr> gs_rng := ?rng0 \<rparr>)"
      by (simp add: connectOnce_def split_beta)
    then show ?thesis by simp
  next
    case False
    show ?thesis
      using False by (simp add: connectOnce_def split_beta fi ft Let_def js_div_def)
  qed
qed

lemma connectFromNode_inv:
  assumes step: "\<And>st. P st \<Longrightarrow> \<exists>st'. connectOnce p n ns i st = Inr st' \<and> P st'"
    and "P st"
  shows "\<exists>st'. connectFromNode p n ns i k st = Inr st' \<and> P st'"
  using \<open>P st\<close>
proof (induction k arbitrary: st)
  case 0
  then show ?case by simp
next
  case (Suc k)
  from step [OF Suc.prems] obtain st1 where "connectOnce p n ns i st = Inr st1" "P st1" by blast
  with Suc.IH [of st1] show ?case by simp
qed

lemma connectAll_inv:
  assumes step: "\<And>i st. i \<in> set idx \<Longrightarrow> P st \<Longrightarrow>
                   \<exists>st'. connectOnce p n ns (int i) st = Inr st' \<and> P st'"
    and "P st"
  shows "\<exists>st'. connectAll p n ns idx st = Inr st' \<and> P st'"
  using assms
proof (induction idx arbitrary: st)
  case Nil
  then show ?case by simp
next
  case (Cons i rest)
  have "\<exists>st'. connectFromNode p n ns (int i)
                 (nat \<lfloor>1 + connectionDensity p * branchingFactor p * 5\<rfloor>) st = Inr st' \<and> P st'"
    by (rule connectFromNode_inv [where P = P]) (use Cons.prems in auto)
  then obtain st1 where
    st1: "connectFromNode p n ns (int i)
            (nat \<lfloor>1 + connectionDensity p * branchingFactor p * 5\<rfloor>) st = Inr st1" "P st1"
    by blast
  have "\<exists>st'. connectAll p n ns rest st1 = Inr st' \<and> P st'"
    by (rule Cons.IH) (use Cons.prems st1 in auto)
  with st1 show ?case by (simp add: Let_def)
qed

lemma upt_ids:
  "map int [0..<a + b] = map int [0..<a] @ map (\<lambda>k. int a + int k) [0..<b]"
  by (induction b) simp_all

text \<open>What every pass keeps true of the connections made so far.\<close>

lemma connectOnce_keeps:
  assumes i: "0 \<le> i" "i < n" and len: "length ns = nat n"
    and Q: "\<And>c. conn_from c = i \<Longrightarrow>
               conn_to c = fst (chooseTarget p n i (snd (random (gs_rng st)))) \<Longrightarrow>
               (conn_to c = i \<longrightarrow>
                 controlPoint1 c = \<lparr> np_x = NaN, np_y = NaN \<rparr> \<and>
                 controlPoint2 c = \<lparr> np_x = NaN, np_y = NaN \<rparr>)
               \<Longrightarrow> Q c"
    and inv: "gs_connectionId st = int (length (gs_connections st))"
             "map conn_id (gs_connections st) = map int [0..<length (gs_connections st)]"
             "\<forall>c \<in> set (gs_connections st). Q c"
  shows "\<exists>st'. connectOnce p n ns i st = Inr st' \<and>
           gs_connectionId st' = int (length (gs_connections st')) \<and>
           map conn_id (gs_connections st') = map int [0..<length (gs_connections st')] \<and>
           (\<forall>c \<in> set (gs_connections st'). Q c)"
proof -
  from connectOnce_step [OF i len, of p st] obtain st' new where
    all: "connectOnce p n ns i st = Inr st' \<and>
           gs_connections st' = gs_connections st @ new \<and>
           gs_connectionId st' = gs_connectionId st + int (length new) \<and>
           map conn_id new = map (\<lambda>k. gs_connectionId st + int k) [0..<length new] \<and>
           (\<forall>c \<in> set new. conn_from c = i \<and>
              conn_to c = fst (chooseTarget p n i (snd (random (gs_rng st)))) \<and>
              (conn_to c = i \<longrightarrow>
                 controlPoint1 c = \<lparr> np_x = NaN, np_y = NaN \<rparr> \<and>
                 controlPoint2 c = \<lparr> np_x = NaN, np_y = NaN \<rparr>))"
    by (elim exE)
  note r = all [THEN conjunct1]
  note c = all [THEN conjunct2, THEN conjunct1]
  note k = all [THEN conjunct2, THEN conjunct2, THEN conjunct1]
  note ids = all [THEN conjunct2, THEN conjunct2, THEN conjunct2, THEN conjunct1]
  note each = all [THEN conjunct2, THEN conjunct2, THEN conjunct2, THEN conjunct2]
  have "map int [0..<length (gs_connections st) + length new] =
        map int [0..<length (gs_connections st)] @
        map (\<lambda>k. int (length (gs_connections st)) + int k) [0..<length new]"
    by (rule upt_ids)
  then have "map conn_id (gs_connections st') = map int [0..<length (gs_connections st')]"
    using c ids inv by simp
  moreover have "\<forall>c \<in> set (gs_connections st'). Q c"
  proof
    fix c assume "c \<in> set (gs_connections st')"
    then consider "c \<in> set (gs_connections st)" | "c \<in> set new" using c by auto
    then show "Q c"
    proof cases
      case 1 then show ?thesis using inv(3) by blast
    next
      case 2 
      with each show ?thesis by (intro Q) blast+
    qed
  qed
  ultimately show ?thesis using r k c inv(1) by simp
qed

lemma generated_nodes:
  assumes n: "n = js_round (nodeCount p)"
  shows "placeNodes p n [0..<nat n] \<lparr> seed = randomSeed p \<rparr> [] =
     (map (\<lambda>i. fst (makeNode p n (int i) \<lparr> seed = randomSeed p + 6 * real i \<rparr>)) [0..<nat n],
      \<lparr> seed = randomSeed p + 6 * real (nat n) \<rparr>)"
  using placeNodes_upt [of p n 0 "nat n" "randomSeed p" "[]"] by simp

lemma generateDiagram_inv:
  assumes n: "n = js_round (nodeCount p)"
    and ns: "ns = map (\<lambda>i. fst (makeNode p n (int i) \<lparr> seed = randomSeed p + 6 * real i \<rparr>))
                    [0..<nat n]"
    and Q: "\<And>i c rng. 0 \<le> i \<Longrightarrow> i < n \<Longrightarrow> conn_from c = i \<Longrightarrow>
               conn_to c = fst (chooseTarget p n i rng) \<Longrightarrow>
               (conn_to c = i \<longrightarrow>
                 controlPoint1 c = \<lparr> np_x = NaN, np_y = NaN \<rparr> \<and>
                 controlPoint2 c = \<lparr> np_x = NaN, np_y = NaN \<rparr>)
               \<Longrightarrow> Q c"
  shows "\<exists>cs. generateDiagram p = Inr \<lparr> nodes = ns, connections = cs \<rparr> \<and>
              map conn_id cs = map int [0..<length cs] \<and> (\<forall>c \<in> set cs. Q c)"
proof -
  let ?P = "\<lambda>st :: GenState. gs_connectionId st = int (length (gs_connections st)) \<and>
           map conn_id (gs_connections st) = map int [0..<length (gs_connections st)] \<and>
           (\<forall>c \<in> set (gs_connections st). Q c)"
  let ?st0 = "\<lparr> gs_rng = \<lparr> seed = randomSeed p + 6 * real (nat n) \<rparr>, gs_connections = [],
                gs_connectionId = 0 \<rparr>"
  have len: "length ns = nat n" by (simp add: ns)
  have "\<exists>st'. connectAll p n ns [0..<nat n] ?st0 = Inr st' \<and> ?P st'"
  proof (rule connectAll_inv [where P = ?P])
    fix i st
    assume i: "i \<in> set [0..<nat n]" and P: "?P st"
    then have i0: "0 \<le> int i" and i1: "int i < n" by auto
    show "\<exists>st'. connectOnce p n ns (int i) st = Inr st' \<and> ?P st'"
      by (rule connectOnce_keeps [OF i0 i1 len]) (use P Q [OF i0 i1] in auto)
  next
    show "?P ?st0" by simp
  qed
  then obtain st' where st': "connectAll p n ns [0..<nat n] ?st0 = Inr st'" and P: "?P st'"
    by (elim exE conjE) (rule that, assumption, intro conjI)
  have "generateDiagram p = Inr \<lparr> nodes = ns, connections = gs_connections st' \<rparr>"
    unfolding generateDiagram_def Let_def n [symmetric] generated_nodes [OF n] prod.case
      ns [symmetric] st' by simp
  with P show ?thesis by simp
qed


section \<open>The generator on the example parameter sets\<close>

lemma draw_not_neg: "\<not> draw s < 0" using draw_ge0 [of s] by simp
lemma draw_not_gt1: "\<not> 1 < draw s" using draw_lt1 [of s] by simp
lemma floor_draw: "\<lfloor>draw s\<rfloor> = 0" using draw_ge0 [of s] draw_lt1 [of s] by (simp add: floor_eq_iff)

lemmas draw_facts = draw_not_neg draw_not_gt1 floor_draw draw_lt1 draw_ge0

lemma solo_fields:
  "js_round (nodeCount solo_params) = 1"
  "randomSeed solo_params = 42"
  "connectionDensity solo_params * branchingFactor solo_params = 0"
  by (simp_all add: solo_params_def initial_params_def js_round_def)

lemma solo_node:
  "fst (makeNode solo_params 1 0 \<lparr> seed = s \<rparr>) =
     \<lparr> node_id = 0, node_x = 80, node_y = 300, node_width = 60, node_height = 20,
        node_label = None \<rparr>"
  by (simp add: makeNode_def random_lit range_rng_lit Let_def solo_params_def initial_params_def
        js_index_def)

lemma solo_target: "chooseTarget solo_params 1 0 \<lparr> seed = s \<rparr> = (0, \<lparr> seed = s + 4 \<rparr>)"
  by (simp add: chooseTarget_def random_lit Let_def solo_params_def initial_params_def
        draw_facts js_rem_def)

lemma solo_once:
  "connectOnce solo_params 1
     [\<lparr> node_id = 0, node_x = 80, node_y = 300, node_width = 60, node_height = 20,
        node_label = None \<rparr>] 0
     \<lparr> gs_rng = \<lparr> seed = s \<rparr>, gs_connections = [], gs_connectionId = 0 \<rparr> =
   Inr \<lparr> gs_rng = \<lparr> seed = s + 10 \<rparr>, gs_connections = connections solo_state,
         gs_connectionId = 1 \<rparr>"
  unfolding connectOnce_def
  apply (simp add: random_lit solo_target js_index_def Let_def draw_facts js_div_def)
  apply (simp add: solo_params_def initial_params_def solo_state_def draw_facts)
  done

lemma solo_eval: "generateDiagram solo_params = Inr solo_state"
  unfolding generateDiagram_def Let_def solo_fields
  apply (simp add: split_beta solo_node makeNode_rng solo_fields solo_once)
  apply (simp add: solo_state_def)
  done

lemma pair_fields:
  "js_round (nodeCount pair_params) = 2"
  "randomSeed pair_params = 42"
  "connectionDensity pair_params * branchingFactor pair_params = 0"
  by (simp_all add: pair_params_def solo_params_def initial_params_def js_round_def)

lemma pair_node:
  "fst (makeNode pair_params 2 0 \<lparr> seed = s \<rparr>) =
     \<lparr> node_id = 0, node_x = 80, node_y = 300, node_width = 60, node_height = 20,
        node_label = None \<rparr>"
  "fst (makeNode pair_params 2 1 \<lparr> seed = s \<rparr>) =
     \<lparr> node_id = 1, node_x = 400, node_y = 300, node_width = 60, node_height = 20,
        node_label = None \<rparr>"
  by (simp_all add: makeNode_def random_lit range_rng_lit Let_def pair_params_def solo_params_def
        initial_params_def js_index_def)

lemma pair_target:
  "chooseTarget pair_params 2 0 \<lparr> seed = s \<rparr> = (1, \<lparr> seed = s + 3 \<rparr>)"
  "chooseTarget pair_params 2 1 \<lparr> seed = s \<rparr> = (0, \<lparr> seed = s + 4 \<rparr>)"
  by (simp_all add: chooseTarget_def random_lit Let_def pair_params_def solo_params_def
        initial_params_def draw_facts)

lemma sqrt_102400: "sqrt 102400 = 320"
  using real_sqrt_abs2 [of 320] by simp

lemma pair_once:
  "connectOnce pair_params 2 (nodes pair_state) 0
     \<lparr> gs_rng = \<lparr> seed = s \<rparr>, gs_connections = [], gs_connectionId = 0 \<rparr> =
   Inr \<lparr> gs_rng = \<lparr> seed = s + 9 \<rparr>, gs_connections = [connections pair_state ! 0],
         gs_connectionId = 1 \<rparr>"
  "connectOnce pair_params 2 (nodes pair_state) 1
     \<lparr> gs_rng = \<lparr> seed = s \<rparr>, gs_connections = [connections pair_state ! 0],
       gs_connectionId = 1 \<rparr> =
   Inr \<lparr> gs_rng = \<lparr> seed = s + 10 \<rparr>, gs_connections = connections pair_state,
         gs_connectionId = 2 \<rparr>"
  unfolding connectOnce_def
   apply (simp_all add: random_lit pair_target js_index_def Let_def draw_facts js_div_def)
   apply (simp_all add: pair_params_def solo_params_def initial_params_def pair_state_def
      draw_facts sqrt_102400)
  done

lemma pair_nodes: "nodes pair_state =
    [\<lparr> node_id = 0, node_x = 80, node_y = 300, node_width = 60, node_height = 20,
        node_label = None \<rparr>,
      \<lparr> node_id = 1, node_x = 400, node_y = 300, node_width = 60, node_height = 20,
        node_label = None \<rparr>]"
  by (simp add: pair_state_def)

lemma upt_0_2: "[0..<2] = [0, Suc 0]"
  by (simp add: numeral_2_eq_2)

lemma pair_placed:
  "placeNodes pair_params 2 [0..<2] \<lparr> seed = 42 \<rparr> [] = (nodes pair_state, \<lparr> seed = 54 \<rparr>)"
  using generated_nodes [of 2 pair_params]
  by (simp add: pair_fields upt_0_2 pair_node pair_nodes)

lemma pair_connected:
  "connectAll pair_params 2 (nodes pair_state) [0..<2]
     \<lparr> gs_rng = \<lparr> seed = 54 \<rparr>, gs_connections = [], gs_connectionId = 0 \<rparr> =
   Inr \<lparr> gs_rng = \<lparr> seed = 73 \<rparr>, gs_connections = connections pair_state,
         gs_connectionId = 2 \<rparr>"
  by (simp add: upt_0_2 pair_fields pair_once)

lemma pair_eval: "generateDiagram pair_params = Inr pair_state"
  unfolding generateDiagram_def Let_def pair_fields
  by (simp add: pair_placed pair_connected)

lemma named_fields:
  "js_round (nodeCount named_params) = 2"
  "randomSeed named_params = 42"
  "connectionDensity named_params * branchingFactor named_params = 0"
  by (simp_all add: named_params_def pair_params_def solo_params_def initial_params_def
        js_round_def)

lemma named_node:
  "fst (makeNode named_params 2 0 \<lparr> seed = s \<rparr>) =
     \<lparr> node_id = 0, node_x = 80, node_y = 300, node_width = 60, node_height = 20,
        node_label = Some ''in'' \<rparr>"
  "fst (makeNode named_params 2 1 \<lparr> seed = s \<rparr>) =
     \<lparr> node_id = 1, node_x = 500, node_y = 300, node_width = 60, node_height = 20,
        node_label = None \<rparr>"
  by (simp_all add: makeNode_def random_lit range_rng_lit Let_def named_params_def
        pair_params_def solo_params_def initial_params_def js_index_def)

lemma named_target:
  "chooseTarget named_params 2 0 \<lparr> seed = s \<rparr> = (1, \<lparr> seed = s + 3 \<rparr>)"
  "chooseTarget named_params 2 1 \<lparr> seed = s \<rparr> = (0, \<lparr> seed = s + 4 \<rparr>)"
  by (simp_all add: chooseTarget_def random_lit Let_def named_params_def pair_params_def
        solo_params_def initial_params_def draw_facts)

lemma sqrt_176400: "sqrt 176400 = 420"
  using real_sqrt_abs2 [of 420] by simp

lemma named_once:
  "connectOnce named_params 2 (nodes named_state) 0
     \<lparr> gs_rng = \<lparr> seed = s \<rparr>, gs_connections = [], gs_connectionId = 0 \<rparr> =
   Inr \<lparr> gs_rng = \<lparr> seed = s + 9 \<rparr>, gs_connections = [connections named_state ! 0],
         gs_connectionId = 1 \<rparr>"
  "connectOnce named_params 2 (nodes named_state) 1
     \<lparr> gs_rng = \<lparr> seed = s \<rparr>, gs_connections = [connections named_state ! 0],
       gs_connectionId = 1 \<rparr> =
   Inr \<lparr> gs_rng = \<lparr> seed = s + 10 \<rparr>, gs_connections = connections named_state,
         gs_connectionId = 2 \<rparr>"
  unfolding connectOnce_def
   apply (simp_all add: random_lit named_target js_index_def Let_def draw_facts js_div_def)
   apply (simp_all add: named_params_def pair_params_def solo_params_def initial_params_def
      named_state_def draw_facts sqrt_176400)
  done

lemma named_nodes: "nodes named_state =
    [\<lparr> node_id = 0, node_x = 80, node_y = 300, node_width = 60, node_height = 20,
        node_label = Some ''in'' \<rparr>,
      \<lparr> node_id = 1, node_x = 500, node_y = 300, node_width = 60, node_height = 20,
        node_label = None \<rparr>]"
  by (simp add: named_state_def)

lemma named_placed:
  "placeNodes named_params 2 [0..<2] \<lparr> seed = 42 \<rparr> [] = (nodes named_state, \<lparr> seed = 54 \<rparr>)"
  using generated_nodes [of 2 named_params]
  by (simp add: named_fields upt_0_2 named_node named_nodes)

lemma named_connected:
  "connectAll named_params 2 (nodes named_state) [0..<2]
     \<lparr> gs_rng = \<lparr> seed = 54 \<rparr>, gs_connections = [], gs_connectionId = 0 \<rparr> =
   Inr \<lparr> gs_rng = \<lparr> seed = 73 \<rparr>, gs_connections = connections named_state,
         gs_connectionId = 2 \<rparr>"
  by (simp add: upt_0_2 named_fields named_once)

lemma named_eval: "generateDiagram named_params = Inr named_state"
  unfolding generateDiagram_def Let_def named_fields
  by (simp add: named_placed named_connected)


section \<open>Properties of generated states\<close>

lemma sorted_ids: "sorted_wrt (<) (map int [0..<m])"
  by (simp add: sorted_wrt_map sorted_wrt_upt)

text \<open>
  Claim C6. Generation never raises, and in the returned state the node ids are
  \<open>0, \<dots>, nodeCount - 1\<close> in list order (\<open>nodeCount\<close> rounded), the connection ids are
  \<open>0, 1, 2, \<dots>\<close> in list order, hence strictly increasing from 0, and the \<open>from\<close> and \<open>to\<close>
  of every connection are ids of nodes of the same state.
\<close>

theorem generateDiagram_ids:
  "\<exists>st. generateDiagram p = Inr st \<and>
     map node_id (nodes st) = map int [0..<nat (js_round (nodeCount p))] \<and>
     map conn_id (connections st) = map int [0..<length (connections st)] \<and>
     sorted_wrt (<) (map conn_id (connections st)) \<and>
     (\<forall>c \<in> set (connections st).
        conn_from c \<in> node_id ` set (nodes st) \<and> conn_to c \<in> node_id ` set (nodes st))"
proof -
  define n where "n = js_round (nodeCount p)"
  define ns where "ns = map (\<lambda>i. fst (makeNode p n (int i) \<lparr> seed = randomSeed p + 6 * real i \<rparr>))
                    [0..<nat n]"
  let ?Q = "\<lambda>c. 0 \<le> conn_from c \<and> conn_from c < n \<and> 0 \<le> conn_to c \<and> conn_to c < n"
  have "\<exists>cs. generateDiagram p = Inr \<lparr> nodes = ns, connections = cs \<rparr> \<and>
              map conn_id cs = map int [0..<length cs] \<and> (\<forall>c \<in> set cs. ?Q c)"
    by (rule generateDiagram_inv [OF n_def ns_def]) (use chooseTarget_range in auto)
  then obtain cs where g: "generateDiagram p = Inr \<lparr> nodes = ns, connections = cs \<rparr>"
    and ids: "map conn_id cs = map int [0..<length cs]" and Q: "\<forall>c \<in> set cs. ?Q c"
    by (elim exE conjE) (rule that, assumption+)
  have nid: "map node_id ns = map int [0..<nat n]"
    by (simp add: ns_def comp_def makeNode_id)
  have mem: "k \<in> node_id ` set ns" if "0 \<le> k" "k < n" for k
  proof -
    have "node_id ` set ns = set (map node_id ns)" by simp
    also have "\<dots> = int ` {0..<nat n}" unfolding nid by simp
    finally have eq: "node_id ` set ns = int ` {0..<nat n}" .
    have "k = int (nat k)" "nat k \<in> {0..<nat n}" using that by simp_all
    then show ?thesis unfolding eq by (rule image_eqI)
  qed
  have "\<forall>c \<in> set cs. conn_from c \<in> node_id ` set ns \<and> conn_to c \<in> node_id ` set ns"
    using Q mem by blast
  moreover have "sorted_wrt (<) (map conn_id cs)" unfolding ids by (rule sorted_ids)
  ultimately show ?thesis using g ids nid by (simp add: n_def)
qed

text \<open>The two-node parameter set: ids 0 and 1, one edge each way.\<close>

theorem generateDiagram_ids_witness:
  "generateDiagram pair_params = Inr pair_state \<and>
   map node_id (nodes pair_state) = [0, 1] \<and>
   map conn_id (connections pair_state) = [0, 1] \<and>
   sorted_wrt (<) (map conn_id (connections pair_state)) \<and>
   map conn_from (connections pair_state) = [0, 1] \<and>
   map conn_to (connections pair_state) = [1, 0] \<and>
   conn_from (connections pair_state ! 0) \<in> node_id ` set (nodes pair_state) \<and>
   conn_to (connections pair_state ! 0) \<in> node_id ` set (nodes pair_state) \<and>
   conn_from (connections pair_state ! 1) \<in> node_id ` set (nodes pair_state) \<and>
   conn_to (connections pair_state ! 1) \<in> node_id ` set (nodes pair_state)"
proof -
  from generateDiagram_ids [of pair_params] obtain st where
    st: "generateDiagram pair_params = Inr st"
    and a: "map node_id (nodes st) = map int [0..<nat (js_round (nodeCount pair_params))]"
    and b: "map conn_id (connections st) = map int [0..<length (connections st)]"
    and c: "sorted_wrt (<) (map conn_id (connections st))"
    and d: "\<forall>c \<in> set (connections st).
        conn_from c \<in> node_id ` set (nodes st) \<and> conn_to c \<in> node_id ` set (nodes st)"
    by (elim exE conjE) (rule that, assumption+)
  have eq: "st = pair_state" using st by (simp add: pair_eval)
  have len: "length (connections pair_state) = 2" by (simp add: pair_state_def)
  have e: "connections pair_state ! 0 \<in> set (connections pair_state)"
    "connections pair_state ! 1 \<in> set (connections pair_state)"
    by (simp_all add: len)
  have f: "map conn_from (connections pair_state) = [0, 1]"
    "map conn_to (connections pair_state) = [1, 0]"
    by (simp_all add: pair_state_def)
  from a have a': "map node_id (nodes pair_state) = [0, 1]"
    unfolding eq by (simp add: pair_fields upt_0_2)
  from b have b': "map conn_id (connections pair_state) = [0, 1]"
    unfolding eq len by (simp add: upt_0_2)
  from d e have "conn_from (connections pair_state ! 0) \<in> node_id ` set (nodes pair_state)"
    "conn_to (connections pair_state ! 0) \<in> node_id ` set (nodes pair_state)"
    "conn_from (connections pair_state ! 1) \<in> node_id ` set (nodes pair_state)"
    "conn_to (connections pair_state ! 1) \<in> node_id ` set (nodes pair_state)"
    unfolding eq by blast+
  with a' b' c f pair_eval show ?thesis unfolding eq by blast
qed

text \<open>
  Claim C5, as amended. With \<open>selfLoopChance = 0\<close> and a rounded node count other than 1,
  generation succeeds and no connection has \<open>from = to\<close>. And for every parameter set, when
  the random-fallback branch is reached for source \<open>i\<close> and its draw lands on \<open>i\<close>, the
  target is \<open>(i + 1) mod nodeCount\<close>.
\<close>

theorem no_self_loops:
  "(selfLoopChance p = 0 \<and> js_round (nodeCount p) \<noteq> 1 \<longrightarrow>
      (\<exists>st. generateDiagram p = Inr st \<and>
            (\<forall>c \<in> set (connections st). conn_from c \<noteq> conn_to c))) \<and>
   (0 \<le> i \<and> i < n \<and>
    \<not> draw s < selfLoopChance q \<and>
    \<not> (draw (s + 1) < flowDirectionality q \<and> i < n - 1) \<and>
    \<not> (draw (s + 2) < backwardConnectionFreq q \<and> 0 < i) \<and>
    \<lfloor>draw (s + 3) * of_int n\<rfloor> = i \<longrightarrow>
      fst (chooseTarget q n i \<lparr> seed = s \<rparr>) = (i + 1) mod n)"
proof (intro conjI impI)
  assume a: "selfLoopChance p = 0 \<and> js_round (nodeCount p) \<noteq> 1"
  define m where "m = js_round (nodeCount p)"
  define ns where "ns = map (\<lambda>i. fst (makeNode p m (int i) \<lparr> seed = randomSeed p + 6 * real i \<rparr>))
                    [0..<nat m]"
  have m1: "m \<noteq> 1" and sl: "selfLoopChance p = 0" using a by (simp_all add: m_def)
  have "\<exists>cs. generateDiagram p = Inr \<lparr> nodes = ns, connections = cs \<rparr> \<and>
              map conn_id cs = map int [0..<length cs] \<and>
              (\<forall>c \<in> set cs. conn_from c \<noteq> conn_to c)"
  proof (rule generateDiagram_inv [OF m_def ns_def])
    fix j c rng
    assume "0 \<le> j" "j < m" "conn_from c = j" "conn_to c = fst (chooseTarget p m j rng)"
    then show "conn_from c \<noteq> conn_to c"
      using chooseTarget_noself [OF _ _ m1 sl, of j rng] by simp
  qed
  then show "\<exists>st. generateDiagram p = Inr st \<and>
            (\<forall>c \<in> set (connections st). conn_from c \<noteq> conn_to c)"
    by auto
next
  assume b: "0 \<le> i \<and> i < n \<and>
    \<not> draw s < selfLoopChance q \<and>
    \<not> (draw (s + 1) < flowDirectionality q \<and> i < n - 1) \<and>
    \<not> (draw (s + 2) < backwardConnectionFreq q \<and> 0 < i) \<and>
    \<lfloor>draw (s + 3) * of_int n\<rfloor> = i"
  then have c: "\<not> draw s < selfLoopChance q"
      "\<not> (draw (s + 1) < flowDirectionality q \<and> i < n - 1)"
      "\<not> (draw (s + 2) < backwardConnectionFreq q \<and> 0 < i)"
      "\<lfloor>draw (s + 3) * of_int n\<rfloor> = i"
    by blast+
  have "fst (chooseTarget q n i \<lparr> seed = s \<rparr>) = js_rem (i + 1) n"
    unfolding chooseTarget_fst if_not_P [OF c(1)] if_not_P [OF c(2)] if_not_P [OF c(3)]
      if_P [OF c(4)] ..
  also have "\<dots> = (i + 1) mod n" using b by (simp add: js_rem_pos)
  finally show "fst (chooseTarget q n i \<lparr> seed = s \<rparr>) = (i + 1) mod n" .
qed

lemma draw_0: "draw 0 = 0" by (simp add: draw_def)

text \<open>
  The two-node set has no self loop; and with forward and backward edges ruled out, the
  fallback draw \<open>draw 0 = 0\<close> for source 0 is moved to target 1.
\<close>

theorem no_self_loops_witness:
  "selfLoopChance pair_params = 0 \<and> js_round (nodeCount pair_params) \<noteq> 1 \<and>
   generateDiagram pair_params = Inr pair_state \<and>
   conn_from (connections pair_state ! 0) \<noteq> conn_to (connections pair_state ! 0) \<and>
   conn_from (connections pair_state ! 1) \<noteq> conn_to (connections pair_state ! 1) \<and>
   fst (chooseTarget drift_params 2 0 \<lparr> seed = - 3 \<rparr>) = 1"
proof -
  have h1: "selfLoopChance pair_params = 0 \<and> js_round (nodeCount pair_params) \<noteq> 1"
    by (simp add: pair_fields) (simp add: pair_params_def solo_params_def)
  have h2: "0 \<le> (0::int) \<and> (0::int) < 2 \<and>
    \<not> draw (- 3) < selfLoopChance drift_params \<and>
    \<not> (draw (- 3 + 1) < flowDirectionality drift_params \<and> (0::int) < 2 - 1) \<and>
    \<not> (draw (- 3 + 2) < backwardConnectionFreq drift_params \<and> 0 < (0::int)) \<and>
    \<lfloor>draw (- 3 + 3) * of_int 2\<rfloor> = 0"
    by (simp add: drift_params_def pair_params_def solo_params_def draw_facts draw_0)
  note inst = no_self_loops [of pair_params 0 2 "- 3" drift_params]
  from inst [THEN conjunct1, rule_format, OF h1] obtain st where
    st: "generateDiagram pair_params = Inr st"
    and nl: "\<forall>c \<in> set (connections st). conn_from c \<noteq> conn_to c"
    by (elim exE conjE) (rule that, assumption+)
  have eq: "st = pair_state" using st by (simp add: pair_eval)
  have e: "connections pair_state ! 0 \<in> set (connections pair_state)"
    "connections pair_state ! 1 \<in> set (connections pair_state)"
    by (simp_all add: pair_state_def)
  from nl e have "conn_from (connections pair_state ! 0) \<noteq> conn_to (connections pair_state ! 0)"
    "conn_from (connections pair_state ! 1) \<noteq> conn_to (connections pair_state ! 1)"
    unfolding eq by blast+
  moreover from inst [THEN conjunct2, rule_format, OF h2]
  have "fst (chooseTarget drift_params 2 0 \<lparr> seed = - 3 \<rparr>) = 1" by simp
  ultimately show ?thesis using h1 pair_eval by blast
qed

text \<open>
  Claim C5 as stated fails for a single node: \<open>selfLoopChance = 0\<close>, yet the only
  connection runs from node 0 to node 0, since \<open>(0 + 1) mod 1 = 0\<close>.
\<close>

theorem single_node_self_loop_counterexample:
  "selfLoopChance solo_params = 0 \<and>
   generateDiagram solo_params = Inr solo_state \<and>
   conn_from (hd (connections solo_state)) = 0 \<and>
   conn_to (hd (connections solo_state)) = 0"
  by (simp add: solo_eval) (simp add: solo_params_def solo_state_def)

lemma makeNode_position:
  "(let nd = fst (makeNode p n i \<lparr> seed = s \<rparr>);
        w = canvasWidth p; h = canvasHeight p;
        rawX = 80 + (w - 2 * 80) * (of_int i / of_int n)
               + (draw s - 0.5) * (w - 2 * 80) * positionJitter p
               + (draw (s + 2) - 0.5) * (w - 2 * 80) * layoutSpread p
               + (horizontalBias p - 0.5) * (w - 2 * 80) * 0.3;
        rawY = 80 + (h - 2 * 80) * 0.5
               + (draw (s + 1) - 0.5) * (h - 2 * 80) * positionJitter p
               + (draw (s + 3) - 0.5) * (h - 2 * 80) * layoutSpread p
               + (verticalBias p - 0.5) * (h - 2 * 80) * 0.3
    in node_x nd = max 80 (min (w - 80 - node_width nd) rawX) \<and>
       node_y nd = max 80 (min (h - 80 - node_height nd) rawY))"
  by (simp add: makeNode_def random_lit range_rng_lit Let_def add.commute)

text \<open>
  Claim C8, as amended. Each node's position is the raw position (baseline plus jitter,
  spread and bias, with the draws of its own six-draw block) passed through
  \<open>max 80 (min (canvasDim - 80 - nodeDim) raw)\<close>. So \<open>80 \<le> x\<close> and \<open>80 \<le> y\<close> always hold, and
  \<open>x \<le> canvasWidth - 80 - width\<close> holds when the node fits between the margins, that is
  when \<open>width \<le> canvasWidth - 160\<close>; likewise for \<open>y\<close> and the height.
\<close>

theorem node_position_clamped:
  "\<exists>st. generateDiagram p = Inr st \<and>
     length (nodes st) = nat (js_round (nodeCount p)) \<and>
     (\<forall>i < length (nodes st).
        (let nd = nodes st ! i;
             s = randomSeed p + 6 * real i;
             w = canvasWidth p; h = canvasHeight p;
             rawX = 80 + (w - 2 * 80) * (real i / of_int (js_round (nodeCount p)))
                    + (draw s - 0.5) * (w - 2 * 80) * positionJitter p
                    + (draw (s + 2) - 0.5) * (w - 2 * 80) * layoutSpread p
                    + (horizontalBias p - 0.5) * (w - 2 * 80) * 0.3;
             rawY = 80 + (h - 2 * 80) * 0.5
                    + (draw (s + 1) - 0.5) * (h - 2 * 80) * positionJitter p
                    + (draw (s + 3) - 0.5) * (h - 2 * 80) * layoutSpread p
                    + (verticalBias p - 0.5) * (h - 2 * 80) * 0.3
         in node_x nd = max 80 (min (w - 80 - node_width nd) rawX) \<and>
            node_y nd = max 80 (min (h - 80 - node_height nd) rawY) \<and>
            80 \<le> node_x nd \<and> 80 \<le> node_y nd \<and>
            (node_width nd \<le> w - 160 \<longrightarrow> node_x nd \<le> w - 80 - node_width nd) \<and>
            (node_height nd \<le> h - 160 \<longrightarrow> node_y nd \<le> h - 80 - node_height nd)))"
proof -
  define n where "n = js_round (nodeCount p)"
  define ns where "ns = map (\<lambda>i. fst (makeNode p n (int i) \<lparr> seed = randomSeed p + 6 * real i \<rparr>))
                    [0..<nat n]"
  have "\<exists>cs. generateDiagram p = Inr \<lparr> nodes = ns, connections = cs \<rparr> \<and>
              map conn_id cs = map int [0..<length cs] \<and> (\<forall>c \<in> set cs. True)"
    by (rule generateDiagram_inv [OF n_def ns_def]) simp
  then obtain cs where g: "generateDiagram p = Inr \<lparr> nodes = ns, connections = cs \<rparr>"
    by (elim exE conjE) (rule that, assumption+)
  have len: "length ns = nat n" by (simp add: ns_def)
  have at: "ns ! i = fst (makeNode p n (int i) \<lparr> seed = randomSeed p + 6 * real i \<rparr>)"
    if "i < nat n" for i using that by (simp add: ns_def)
  show ?thesis
    unfolding g n_def [symmetric]
  proof (intro exI conjI allI impI, rule refl)
    show "length (nodes \<lparr> nodes = ns, connections = cs \<rparr>) = nat n" by (simp add: len)
  next
    fix i assume "i < length (nodes \<lparr> nodes = ns, connections = cs \<rparr>)"
    then have i: "i < nat n" by (simp add: len)
    from makeNode_position [of p n "int i" "randomSeed p + 6 * real i"]
    show "(let nd = nodes \<lparr> nodes = ns, connections = cs \<rparr> ! i;
             s = randomSeed p + 6 * real i;
             w = canvasWidth p; h = canvasHeight p;
             rawX = 80 + (w - 2 * 80) * (real i / of_int n)
                    + (draw s - 0.5) * (w - 2 * 80) * positionJitter p
                    + (draw (s + 2) - 0.5) * (w - 2 * 80) * layoutSpread p
                    + (horizontalBias p - 0.5) * (w - 2 * 80) * 0.3;
             rawY = 80 + (h - 2 * 80) * 0.5
                    + (draw (s + 1) - 0.5) * (h - 2 * 80) * positionJitter p
                    + (draw (s + 3) - 0.5) * (h - 2 * 80) * layoutSpread p
                    + (verticalBias p - 0.5) * (h - 2 * 80) * 0.3
         in node_x nd = max 80 (min (w - 80 - node_width nd) rawX) \<and>
            node_y nd = max 80 (min (h - 80 - node_height nd) rawY) \<and>
            80 \<le> node_x nd \<and> 80 \<le> node_y nd \<and>
            (node_width nd \<le> w - 160 \<longrightarrow> node_x nd \<le> w - 80 - node_width nd) \<and>
            (node_height nd \<le> h - 160 \<longrightarrow> node_y nd \<le> h - 80 - node_height nd))"
      unfolding Let_def DiagramState.simps at [OF i] by auto
  qed
qed

text \<open>The two-node set on its 800 by 600 canvas: the second node at \<open>(400, 300)\<close> is within both bounds.\<close>

theorem node_position_clamped_witness:
  "generateDiagram pair_params = Inr pair_state \<and>
   length (nodes pair_state) = 2 \<and>
   node_x (nodes pair_state ! 1) = 400 \<and> node_y (nodes pair_state ! 1) = 300 \<and>
   node_width (nodes pair_state ! 1) \<le> canvasWidth pair_params - 160 \<and>
   node_height (nodes pair_state ! 1) \<le> canvasHeight pair_params - 160 \<and>
   80 \<le> node_x (nodes pair_state ! 1) \<and>
   80 \<le> node_y (nodes pair_state ! 1) \<and>
   node_x (nodes pair_state ! 1) \<le> canvasWidth pair_params - 80 - node_width (nodes pair_state ! 1) \<and>
   node_y (nodes pair_state ! 1) \<le> canvasHeight pair_params - 80 - node_height (nodes pair_state ! 1)"
proof -
  from node_position_clamped [of pair_params] obtain st where
    st: "generateDiagram pair_params = Inr st"
    and len: "length (nodes st) = nat (js_round (nodeCount pair_params))"
    and each: "\<And>i. i < length (nodes st) \<Longrightarrow>
        80 \<le> node_x (nodes st ! i) \<and> 80 \<le> node_y (nodes st ! i) \<and>
        (node_width (nodes st ! i) \<le> canvasWidth pair_params - 160 \<longrightarrow>
           node_x (nodes st ! i) \<le> canvasWidth pair_params - 80 - node_width (nodes st ! i)) \<and>
        (node_height (nodes st ! i) \<le> canvasHeight pair_params - 160 \<longrightarrow>
           node_y (nodes st ! i) \<le> canvasHeight pair_params - 80 - node_height (nodes st ! i))"
    unfolding Let_def by (elim exE conjE) (rule that, assumption+, blast)
  have eq: "st = pair_state" using st by (simp add: pair_eval)
  have l2: "length (nodes pair_state) = 2" using len unfolding eq by (simp add: pair_fields)
  have fit: "node_width (nodes pair_state ! 1) \<le> canvasWidth pair_params - 160"
    "node_height (nodes pair_state ! 1) \<le> canvasHeight pair_params - 160"
    and pos: "node_x (nodes pair_state ! 1) = 400" "node_y (nodes pair_state ! 1) = 300"
    by (simp_all add: pair_state_def pair_params_def solo_params_def)
  from each [of 1] l2 fit
  have "80 \<le> node_x (nodes pair_state ! 1) \<and> 80 \<le> node_y (nodes pair_state ! 1) \<and>
     node_x (nodes pair_state ! 1) \<le> canvasWidth pair_params - 80 - node_width (nodes pair_state ! 1) \<and>
     node_y (nodes pair_state ! 1) \<le> canvasHeight pair_params - 80 - node_height (nodes pair_state ! 1)"
    unfolding eq by simp
  with l2 fit pos pair_eval show ?thesis by blast
qed

lemma narrow_fields:
  "js_round (nodeCount narrow_params) = 1"
  "randomSeed narrow_params = 42"
  "connectionDensity narrow_params * branchingFactor narrow_params = 0"
  by (simp_all add: narrow_params_def solo_params_def initial_params_def js_round_def)

lemma narrow_node:
  "fst (makeNode narrow_params 1 0 \<lparr> seed = s \<rparr>) =
     \<lparr> node_id = 0, node_x = 80, node_y = 300, node_width = 60, node_height = 20,
        node_label = None \<rparr>"
  by (simp add: makeNode_def random_lit range_rng_lit Let_def narrow_params_def solo_params_def
        initial_params_def js_index_def)

lemma narrow_target: "chooseTarget narrow_params 1 0 \<lparr> seed = s \<rparr> = (0, \<lparr> seed = s + 4 \<rparr>)"
  by (simp add: chooseTarget_def random_lit Let_def narrow_params_def solo_params_def
        initial_params_def draw_facts js_rem_def)

lemma narrow_once:
  "connectOnce narrow_params 1
     [\<lparr> node_id = 0, node_x = 80, node_y = 300, node_width = 60, node_height = 20,
        node_label = None \<rparr>] 0
     \<lparr> gs_rng = \<lparr> seed = s \<rparr>, gs_connections = [], gs_connectionId = 0 \<rparr> =
   Inr \<lparr> gs_rng = \<lparr> seed = s + 10 \<rparr>, gs_connections = connections solo_state,
         gs_connectionId = 1 \<rparr>"
  unfolding connectOnce_def
  apply (simp add: random_lit narrow_target js_index_def Let_def draw_facts js_div_def)
  apply (simp add: narrow_params_def solo_params_def initial_params_def solo_state_def draw_facts)
  done

lemma narrow_eval: "generateDiagram narrow_params = Inr solo_state"
  unfolding generateDiagram_def Let_def narrow_fields
  apply (simp add: split_beta narrow_node makeNode_rng narrow_fields narrow_once)
  apply (simp add: solo_state_def)
  done

text \<open>
  Claim C8 as stated fails when a node is wider than the canvas leaves room for: on a
  canvas 100 wide the node of width 60 is placed at \<open>x = 80\<close>, above
  \<open>canvasWidth - 80 - width = -40\<close>.
\<close>

theorem node_wider_than_canvas_counterexample:
  "generateDiagram narrow_params = Inr solo_state \<and>
   node_x (hd (nodes solo_state)) = 80 \<and>
   canvasWidth narrow_params - 80 - node_width (hd (nodes solo_state)) = - 40"
  by (simp add: narrow_eval) (simp add: solo_state_def narrow_params_def)


text \<open>
  Claim C10, as amended. Generation returns a state for every parameter set, in
  particular for every node count of at least 1. For every connection of that state with
  \<open>from = to\<close>, the chord between the two centres has length 0, both perpendicular
  components are the quotient \<open>0 / 0\<close>, which is NaN, and all four coordinates of the stored
  control points are NaN.
\<close>

theorem self_loop_control_points:
  "\<exists>st. generateDiagram p = Inr st \<and>
     (\<forall>c \<in> set (connections st). conn_from c = conn_to c \<longrightarrow>
        (let fromNode = nodes st ! nat (conn_from c);
             toNode = nodes st ! nat (conn_to c);
             fromX = node_x fromNode + node_width fromNode / 2;
             fromY = node_y fromNode + node_height fromNode / 2;
             toX = node_x toNode + node_width toNode / 2;
             toY = node_y toNode + node_height toNode / 2;
             dx = toX - fromX;
             dy = toY - fromY;
             distance = sqrt (dx * dx + dy * dy)
         in distance = 0 \<and>
            js_div (- dy) distance = NaN \<and>
            js_div dx distance = NaN \<and>
            controlPoint1 c = \<lparr> np_x = NaN, np_y = NaN \<rparr> \<and>
            controlPoint2 c = \<lparr> np_x = NaN, np_y = NaN \<rparr>))"
proof -
  define n where "n = js_round (nodeCount p)"
  define ns where "ns = map (\<lambda>i. fst (makeNode p n (int i) \<lparr> seed = randomSeed p + 6 * real i \<rparr>))
                    [0..<nat n]"
  let ?Q = "\<lambda>c. conn_from c = conn_to c \<longrightarrow>
     controlPoint1 c = \<lparr> np_x = NaN, np_y = NaN \<rparr> \<and>
     controlPoint2 c = \<lparr> np_x = NaN, np_y = NaN \<rparr>"
  have "\<exists>cs. generateDiagram p = Inr \<lparr> nodes = ns, connections = cs \<rparr> \<and>
              map conn_id cs = map int [0..<length cs] \<and> (\<forall>c \<in> set cs. ?Q c)"
  proof (rule generateDiagram_inv [OF n_def ns_def])
    fix i c rng
    assume "conn_from c = i"
      "conn_to c = i \<longrightarrow>
         controlPoint1 c = \<lparr> np_x = NaN, np_y = NaN \<rparr> \<and>
         controlPoint2 c = \<lparr> np_x = NaN, np_y = NaN \<rparr>"
    then show "?Q c" by metis
  qed
  then obtain cs where g: "generateDiagram p = Inr \<lparr> nodes = ns, connections = cs \<rparr>"
    and Q: "\<forall>c \<in> set cs. ?Q c"
    by (elim exE conjE) (rule that, assumption+)
  show ?thesis
    unfolding g using Q by (simp add: Let_def js_div_def)
qed

text \<open>The single-node set: its one connection is a self loop with NaN control points.\<close>

theorem self_loop_control_points_witness:
  "generateDiagram solo_params = Inr solo_state \<and>
   conn_from (connections solo_state ! 0) = conn_to (connections solo_state ! 0) \<and>
   controlPoint1 (connections solo_state ! 0) = \<lparr> np_x = NaN, np_y = NaN \<rparr> \<and>
   controlPoint2 (connections solo_state ! 0) = \<lparr> np_x = NaN, np_y = NaN \<rparr>"
proof -
  from self_loop_control_points [of solo_params] obtain st where
    st: "generateDiagram solo_params = Inr st"
    and each: "\<And>c. c \<in> set (connections st) \<Longrightarrow> conn_from c = conn_to c \<Longrightarrow>
            controlPoint1 c = \<lparr> np_x = NaN, np_y = NaN \<rparr> \<and>
            controlPoint2 c = \<lparr> np_x = NaN, np_y = NaN \<rparr>"
    unfolding Let_def by (elim exE conjE) (rule that, assumption, blast)
  have eq: "st = solo_state" using st by (simp add: solo_eval)
  have mem: "connections solo_state ! 0 \<in> set (connections solo_state)"
    by (simp add: solo_state_def)
  have loop: "conn_from (connections solo_state ! 0) = conn_to (connections solo_state ! 0)"
    by (simp add: solo_state_def)
  from each [unfolded eq, OF mem loop] loop solo_eval show ?thesis by blast
qed

text \<open>
  Claim C10 as stated fails there: the node's centre is \<open>(110, 310)\<close>, and neither stored
  control point is that point.
\<close>

theorem self_loop_centre_counterexample:
  "generateDiagram solo_params = Inr solo_state \<and>
   conn_from (hd (connections solo_state)) = conn_to (hd (connections solo_state)) \<and>
   node_x (hd (nodes solo_state)) + node_width (hd (nodes solo_state)) / 2 = 110 \<and>
   node_y (hd (nodes solo_state)) + node_height (hd (nodes solo_state)) / 2 = 310 \<and>
   controlPoint1 (hd (connections solo_state)) \<noteq> \<lparr> np_x = Num 110, np_y = Num 310 \<rparr> \<and>
   controlPoint2 (hd (connections solo_state)) \<noteq> \<lparr> np_x = Num 110, np_y = Num 310 \<rparr>"
  by (simp add: solo_eval) (simp add: solo_state_def)


section \<open>Determinism: the result depends on the seed through its stream only\<close>

text \<open>
  Two runs are followed side by side. Whenever their generator objects yield the same
  stream, each step of the generator returns the same value on both and leaves generator
  objects that again yield the same stream.
\<close>

lemma stream_head: "sameStream g h \<Longrightarrow> fst (random g) = fst (random h)"
  unfolding sameStream_def random_def by (drule spec [of _ 0]) simp

lemma stream_tail: 
  assumes "sameStream g h"
  shows "sameStream (snd (random g)) (snd (random h))"
  unfolding sameStream_def
proof
  fix k :: nat
  from assms have "draw (seed g + real (Suc k)) = draw (seed h + real (Suc k))"
    unfolding sameStream_def by blast
  then show "draw (seed (snd (random g)) + real k) = draw (seed (snd (random h)) + real k)"
    by (simp add: random_def add.assoc)
qed

lemma makeNode_stream:
  assumes r0: "sameStream g h"
  shows "fst (makeNode p n i g) = fst (makeNode p n i h)"
    and "sameStream (snd (makeNode p n i g)) (snd (makeNode p n i h))"
proof -
  note r1 = stream_tail [OF r0]
  note r2 = stream_tail [OF r1]
  note r3 = stream_tail [OF r2]
  note r4 = stream_tail [OF r3]
  note r5 = stream_tail [OF r4]
  note r6 = stream_tail [OF r5]
  note e = stream_head [OF r0] stream_head [OF r1] stream_head [OF r2] stream_head [OF r3]
    stream_head [OF r4] stream_head [OF r5]
  show "fst (makeNode p n i g) = fst (makeNode p n i h)"
    by (simp add: makeNode_def split_beta Let_def range_rng_def e)
  have "snd (makeNode p n i g') = snd (random (snd (random (snd (random (snd (random
          (snd (random (snd (random g')))))))))))" for g'
    by (simp add: makeNode_def split_beta Let_def range_rng_def)
  then show "sameStream (snd (makeNode p n i g)) (snd (makeNode p n i h))"
    using r6 by simp
qed

lemma placeNodes_stream:
  assumes "sameStream g h"
  shows "fst (placeNodes p n idx g out) = fst (placeNodes p n idx h out) \<and>
         sameStream (snd (placeNodes p n idx g out)) (snd (placeNodes p n idx h out))"
  using assms
proof (induction idx arbitrary: g h out)
  case Nil
  then show ?case by simp
next
  case (Cons i rest)
  from makeNode_stream [OF Cons.prems, of p n "int i"]
  have a: "fst (makeNode p n (int i) g) = fst (makeNode p n (int i) h)"
    and b: "sameStream (snd (makeNode p n (int i) g)) (snd (makeNode p n (int i) h))"
    by blast+
  from Cons.IH [OF b, of "out @ [fst (makeNode p n (int i) h)]"]
  show ?case by (simp add: split_beta a)
qed

lemma chooseTarget_stream:
  assumes r0: "sameStream g h"
  shows "fst (chooseTarget p n i g) = fst (chooseTarget p n i h)"
    and "sameStream (snd (chooseTarget p n i g)) (snd (chooseTarget p n i h))"
proof -
  note r1 = stream_tail [OF r0]
  note r2 = stream_tail [OF r1]
  note r3 = stream_tail [OF r2]
  note r4 = stream_tail [OF r3]
  note e = stream_head [OF r0] stream_head [OF r1] stream_head [OF r2] stream_head [OF r3]
  show "fst (chooseTarget p n i g) = fst (chooseTarget p n i h)"
    by (simp add: chooseTarget_def split_beta Let_def e)
  show "sameStream (snd (chooseTarget p n i g)) (snd (chooseTarget p n i h))"
    by (simp add: chooseTarget_def split_beta Let_def e r1 r3 r4)
qed


lemma connectOnce_stream:
  assumes sp: "sameProgress u v"
  shows "rel_sum (=) sameProgress (connectOnce p n ns i u) (connectOnce p n ns i v)"
proof -
  from sp have c: "gs_connections u = gs_connections v"
    and k: "gs_connectionId u = gs_connectionId v"
    and r0: "sameStream (gs_rng u) (gs_rng v)"
    unfolding sameProgress_def by blast+
  note r1 = stream_tail [OF r0]
  note t = chooseTarget_stream [OF r1, of p n i]
  note q0 = t(2)
  note q1 = stream_tail [OF q0]
  note q2 = stream_tail [OF q1]
  note q3 = stream_tail [OF q2]
  note q4 = stream_tail [OF q3]
  note q5 = stream_tail [OF q4]
  note q6 = stream_tail [OF q5]
  note q7 = stream_tail [OF q6]
  note e = stream_head [OF r0] t(1) stream_head [OF q0] stream_head [OF q1]
    stream_head [OF q2] stream_head [OF q3] stream_head [OF q4] stream_head [OF q5]
    stream_head [OF q6]
  show ?thesis
    by (auto simp add: connectOnce_def split_beta Let_def range_rng_def e c k sameProgress_def
        r1 q5 q7 split: option.splits)
qed


lemma connectFromNode_stream:
  assumes "sameProgress u v"
  shows "rel_sum (=) sameProgress (connectFromNode p n ns i m u) (connectFromNode p n ns i m v)"
  using assms
proof (induction m arbitrary: u v)
  case 0
  then show ?case by simp
next
  case (Suc m)
  from connectOnce_stream [OF Suc.prems, of p n ns i] show ?case
    by (cases "connectOnce p n ns i u"; cases "connectOnce p n ns i v")
       (simp_all add: Suc.IH)
qed

lemma connectAll_stream:
  assumes "sameProgress u v"
  shows "rel_sum (=) sameProgress (connectAll p n ns idx u) (connectAll p n ns idx v)"
  using assms
proof (induction idx arbitrary: u v)
  case Nil
  then show ?case by simp
next
  case (Cons i rest)
  let ?m = "nat \<lfloor>1 + connectionDensity p * branchingFactor p * 5\<rfloor>"
  from connectFromNode_stream [OF Cons.prems, of p n ns "int i" ?m] show ?case
    by (cases "connectFromNode p n ns (int i) ?m u"; cases "connectFromNode p n ns (int i) ?m v")
       (simp_all add: Cons.IH)
qed

lemma makeNode_seed: "makeNode (p\<lparr> randomSeed := s \<rparr>) = makeNode p"
  by (simp add: fun_eq_iff makeNode_def Let_def split_beta)

lemma chooseTarget_seed: "chooseTarget (p\<lparr> randomSeed := s \<rparr>) = chooseTarget p"
  by (simp add: fun_eq_iff chooseTarget_def Let_def split_beta)

lemma connectOnce_seed: "connectOnce (p\<lparr> randomSeed := s \<rparr>) = connectOnce p"
  by (auto simp add: fun_eq_iff connectOnce_def chooseTarget_seed Let_def split_beta
      split: option.splits)

lemma placeNodes_seed:
  "placeNodes (p\<lparr> randomSeed := s \<rparr>) n idx g out = placeNodes p n idx g out"
  by (induction idx arbitrary: g out) (simp_all add: makeNode_seed)

lemma connectFromNode_seed:
  "connectFromNode (p\<lparr> randomSeed := s \<rparr>) n ns i m u = connectFromNode p n ns i m u"
  by (induction m arbitrary: u) (simp_all add: connectOnce_seed split: sum.splits)

lemma connectAll_seed:
  "connectAll (p\<lparr> randomSeed := s \<rparr>) n ns idx u = connectAll p n ns idx u"
  by (induction idx arbitrary: u) (simp_all add: connectFromNode_seed split: sum.splits)

lemma generateDiagram_stream:
  assumes "sameStream \<lparr> seed = s \<rparr> \<lparr> seed = randomSeed p \<rparr>"
  shows "generateDiagram (p\<lparr> randomSeed := s \<rparr>) = generateDiagram p"
proof -
  let ?n = "js_round (nodeCount p)"
  let ?idx = "[0..<nat ?n]"
  let ?g = "\<lparr> seed = s \<rparr>"
  let ?h = "\<lparr> seed = randomSeed p \<rparr>"
  from placeNodes_stream [OF assms, of p ?n ?idx "[]"]
  have ns: "fst (placeNodes p ?n ?idx ?g []) = fst (placeNodes p ?n ?idx ?h [])"
    and r: "sameStream (snd (placeNodes p ?n ?idx ?g [])) (snd (placeNodes p ?n ?idx ?h []))"
    by blast+
  let ?u = "\<lparr> gs_rng = snd (placeNodes p ?n ?idx ?g []), gs_connections = [],
             gs_connectionId = 0 \<rparr>"
  let ?v = "\<lparr> gs_rng = snd (placeNodes p ?n ?idx ?h []), gs_connections = [],
             gs_connectionId = 0 \<rparr>"
  let ?ns = "fst (placeNodes p ?n ?idx ?h [])"
  have "sameProgress ?u ?v" unfolding sameProgress_def using r by simp
  from connectAll_stream [OF this, of p ?n ?ns ?idx]
  show ?thesis
    by (cases "connectAll p ?n ?ns ?idx ?u"; cases "connectAll p ?n ?ns ?idx ?v")
       (simp_all add: generateDiagram_def split_beta Let_def placeNodes_seed connectAll_seed ns
          sameProgress_def)
qed

lemma draw_period: "draw (s + 2 * pi) = draw s"
  by (simp add: draw_def Let_def)

text \<open>
  Claim C7. \<open>generateDiagram\<close> constructs its stream from \<open>params.randomSeed\<close> and reads the
  seed nowhere else: a call whose seed yields, draw by draw, the values that the seed of
  \<open>p\<close> yields, all other parameters being those of \<open>p\<close>, returns what the call with \<open>p\<close>
  returns, the same nodes and the same connections, or the same error. Two calls with
  identical parameters are the case where the seeds are equal. Numbers are reals here.
\<close>

theorem generateDiagram_deterministic:
  assumes "\<forall>k::nat. draw (s + real k) = draw (randomSeed p + real k)"
  shows "generateDiagram (p\<lparr> randomSeed := s \<rparr>) = generateDiagram p"
proof -
  from assms have "sameStream \<lparr> seed = s \<rparr> \<lparr> seed = randomSeed p \<rparr>"
    unfolding sameStream_def by simp
  then show ?thesis by (rule generateDiagram_stream)
qed

text \<open>
  The seed \<open>42 + 2\<pi>\<close> yields the stream of the seed 42, the sine having period \<open>2\<pi>\<close>: both
  calls return the two-node state.
\<close>

theorem generateDiagram_deterministic_witness:
  "(\<forall>k::nat. draw (42 + 2 * pi + real k) = draw (randomSeed pair_params + real k)) \<and>
   generateDiagram (pair_params\<lparr> randomSeed := 42 + 2 * pi \<rparr>) = generateDiagram pair_params \<and>
   generateDiagram (pair_params\<lparr> randomSeed := 42 + 2 * pi \<rparr>) = Inr pair_state"
proof -
  have h: "\<forall>k::nat. draw (42 + 2 * pi + real k) = draw (randomSeed pair_params + real k)"
  proof
    fix k :: nat
    have "42 + 2 * pi + real k = (42 + real k) + 2 * pi" by simp
    then show "draw (42 + 2 * pi + real k) = draw (randomSeed pair_params + real k)"
      by (simp only: draw_period pair_fields)
  qed
  from generateDiagram_deterministic [OF h]
  have "generateDiagram (pair_params\<lparr> randomSeed := 42 + 2 * pi \<rparr>) = generateDiagram pair_params" .
  with h pair_eval show ?thesis by simp
qed


section \<open>Interpolation between generated states\<close>

lemma lerp_0: "lerp a b 0 = a" by (simp add: lerp_def)
lemma lerp_1: "lerp a b 1 = b" by (simp add: lerp_def)

lemma lerpN_0: "b \<noteq> NaN \<Longrightarrow> lerpN a b (Num 0) = a"
  by (cases a; cases b) (simp_all add: lerpN_def)

lemma lerpN_1: "a \<noteq> NaN \<Longrightarrow> lerpN a b (Num 1) = b"
  by (cases a; cases b) (simp_all add: lerpN_def)

lemma lerpConn_0:
  "curve (lerpConn f t 0) = curve f"
  "finitePoint (controlPoint1 t) \<Longrightarrow> controlPoint1 (lerpConn f t 0) = controlPoint1 f"
  "finitePoint (controlPoint2 t) \<Longrightarrow> controlPoint2 (lerpConn f t 0) = controlPoint2 f"
  by (simp_all add: lerpConn_def lerp_0 lerpN_0 finitePoint_def)

lemma lerpConn_1:
  "curve (lerpConn f t 1) = curve t"
  "finitePoint (controlPoint1 f) \<Longrightarrow> controlPoint1 (lerpConn f t 1) = controlPoint1 t"
  "finitePoint (controlPoint2 f) \<Longrightarrow> controlPoint2 (lerpConn f t 1) = controlPoint2 t"
  by (simp_all add: lerpConn_def lerp_1 lerpN_1 finitePoint_def)

lemma lerpConn_discrete:
  "conn_id (lerpConn f t u) = conn_id t" "conn_from (lerpConn f t u) = conn_from t"
  "conn_to (lerpConn f t u) = conn_to t" "dashed (lerpConn f t u) = dashed t"
  "hasArrow (lerpConn f t u) = hasArrow t"
  by (simp_all add: lerpConn_def)

lemma generated_labels:
  assumes "generateDiagram p = Inr st"
  shows "\<forall>nd \<in> set (nodes st). node_label nd \<noteq> Some []"
proof -
  have "\<exists>cs. generateDiagram p = Inr \<lparr> nodes = map (\<lambda>i. fst (makeNode p (js_round (nodeCount p)) (int i)
                                 \<lparr> seed = randomSeed p + 6 * real i \<rparr>))
                   [0..<nat (js_round (nodeCount p))], connections = cs \<rparr> \<and>
              map conn_id cs = map int [0..<length cs] \<and> (\<forall>c \<in> set cs. True)"
    by (rule generateDiagram_inv [OF refl refl]) simp
  then obtain cs where g: "generateDiagram p = Inr \<lparr> nodes = map (\<lambda>i. fst (makeNode p (js_round (nodeCount p)) (int i)
                                 \<lparr> seed = randomSeed p + 6 * real i \<rparr>))
                   [0..<nat (js_round (nodeCount p))], connections = cs \<rparr>"
    by (elim exE conjE) (rule that, assumption+)
  have lbl: "node_label (fst (makeNode p n i \<lparr> seed = s \<rparr>)) \<noteq> Some []" for n i s
    by (simp add: makeNode_def random_lit range_rng_lit Let_def split: option.splits)
  from assms [unfolded g] have st: "st = \<lparr> nodes = map (\<lambda>i. fst (makeNode p (js_round (nodeCount p)) (int i)
                                 \<lparr> seed = randomSeed p + 6 * real i \<rparr>))
                   [0..<nat (js_round (nodeCount p))], connections = cs \<rparr>"
    by simp
  show ?thesis unfolding st using lbl by auto
qed

text \<open>
  Claim C4, as amended. \<open>interpolateStates\<close> is fed generated states, whose labels are
  never the empty string (\<open>generated_labels\<close>); that is asked of the target here. At
  progress 0 every node and connection of \<open>A\<close> has its continuous fields reproduced at its
  index, and at progress 1 every node and connection of \<open>B\<close> has its continuous and its
  discrete fields reproduced, a control point under the proviso that the control point
  on the other side of the interpolation has no NaN coordinate. The label is the target
  node's when present, else the label of the node used for the source side.
\<close>

theorem interpolate_endpoints:
  assumes "\<forall>nd \<in> set (nodes b). node_label nd \<noteq> Some []"
  shows "\<exists>r0 r1. interpolateStates a b 0 = Inr r0 \<and> interpolateStates a b 1 = Inr r1 \<and>
     (\<forall>i < length (nodes a).
        node_x (nodes r0 ! i) = node_x (nodes a ! i) \<and>
        node_y (nodes r0 ! i) = node_y (nodes a ! i) \<and>
        node_width (nodes r0 ! i) = node_width (nodes a ! i) \<and>
        node_height (nodes r0 ! i) = node_height (nodes a ! i)) \<and>
     (\<forall>i < length (connections a).
        curve (connections r0 ! i) = curve (connections a ! i) \<and>
        (finitePoint (controlPoint1 (if i < length (connections b) then connections b ! i
                                      else connections a ! i)) \<longrightarrow>
           controlPoint1 (connections r0 ! i) = controlPoint1 (connections a ! i)) \<and>
        (finitePoint (controlPoint2 (if i < length (connections b) then connections b ! i
                                      else connections a ! i)) \<longrightarrow>
           controlPoint2 (connections r0 ! i) = controlPoint2 (connections a ! i))) \<and>
     (\<forall>i < length (nodes b).
        node_x (nodes r1 ! i) = node_x (nodes b ! i) \<and>
        node_y (nodes r1 ! i) = node_y (nodes b ! i) \<and>
        node_width (nodes r1 ! i) = node_width (nodes b ! i) \<and>
        node_height (nodes r1 ! i) = node_height (nodes b ! i) \<and>
        node_id (nodes r1 ! i) = node_id (nodes b ! i) \<and>
        node_label (nodes r1 ! i) =
          (if node_label (nodes b ! i) \<noteq> None then node_label (nodes b ! i)
           else node_label (if i < length (nodes a) then nodes a ! i else nodes b ! i))) \<and>
     (\<forall>i < length (connections b).
        conn_id (connections r1 ! i) = conn_id (connections b ! i) \<and>
        conn_from (connections r1 ! i) = conn_from (connections b ! i) \<and>
        conn_to (connections r1 ! i) = conn_to (connections b ! i) \<and>
        dashed (connections r1 ! i) = dashed (connections b ! i) \<and>
        hasArrow (connections r1 ! i) = hasArrow (connections b ! i) \<and>
        curve (connections r1 ! i) = curve (connections b ! i) \<and>
        (finitePoint (controlPoint1 (if i < length (connections a) then connections a ! i
                                      else connections b ! i)) \<longrightarrow>
           controlPoint1 (connections r1 ! i) = controlPoint1 (connections b ! i)) \<and>
        (finitePoint (controlPoint2 (if i < length (connections a) then connections a ! i
                                      else connections b ! i)) \<longrightarrow>
           controlPoint2 (connections r1 ! i) = controlPoint2 (connections b ! i)))"
proof -
  have lbl: "node_label (nodes b ! i) \<noteq> Some []" if "i < length (nodes b)" for i
    using assms that by simp
  show ?thesis
    unfolding interpolateStates_eq
    apply (intro exI conjI allI impI, rule refl, rule refl)
    apply (simp_all add: lerpConn_0 lerpConn_1 lerpConn_discrete)
    apply (simp_all add: lerpNode_def lerp_0 lerp_1)
    using lbl apply (auto simp: js_or_str_def lerpConn_0 lerpConn_1 split: option.splits)
    done
qed


text \<open>
  From the titled two-node state to the plain one, both generated: the end points
  reproduce the geometry of either side, and the missing target label falls back to the
  source's title.
\<close>

theorem interpolate_endpoints_witness:
  "generateDiagram named_params = Inr named_state \<and>
   generateDiagram pair_params = Inr pair_state \<and>
   node_label (nodes pair_state ! 0) \<noteq> Some [] \<and>
   node_label (nodes pair_state ! 1) \<noteq> Some [] \<and>
   (\<exists>r0 r1. interpolateStates named_state pair_state 0 = Inr r0 \<and>
      interpolateStates named_state pair_state 1 = Inr r1 \<and>
      node_x (nodes r0 ! 1) = 500 \<and>
      controlPoint1 (connections r0 ! 0) = \<lparr> np_x = Num (1243/5), np_y = Num 310 \<rparr> \<and>
      controlPoint2 (connections r0 ! 0) = \<lparr> np_x = Num (1957/5), np_y = Num 310 \<rparr> \<and>
      node_x (nodes r1 ! 1) = 400 \<and> node_id (nodes r1 ! 1) = 1 \<and>
      node_label (nodes r1 ! 0) = Some ''in'' \<and>
      conn_to (connections r1 ! 0) = 1 \<and> hasArrow (connections r1 ! 0) \<and>
      controlPoint1 (connections r1 ! 0) = \<lparr> np_x = Num (1078/5), np_y = Num 310 \<rparr> \<and>
      controlPoint2 (connections r1 ! 0) = \<lparr> np_x = Num (1622/5), np_y = Num 310 \<rparr>)"
proof -
  have h: "\<forall>nd \<in> set (nodes pair_state). node_label nd \<noteq> Some []"
    by (simp add: pair_state_def)
  have l: "node_label (nodes pair_state ! 0) \<noteq> Some []"
    "node_label (nodes pair_state ! 1) \<noteq> Some []"
    by (simp_all add: pair_state_def)
  from interpolate_endpoints [OF h, of named_state]
  obtain r0 r1 where "interpolateStates named_state pair_state 0 = Inr r0"
    "interpolateStates named_state pair_state 1 = Inr r1"
    "node_x (nodes r0 ! 1) = 500"
    "controlPoint1 (connections r0 ! 0) = \<lparr> np_x = Num (1243/5), np_y = Num 310 \<rparr> \<and>
     controlPoint2 (connections r0 ! 0) = \<lparr> np_x = Num (1957/5), np_y = Num 310 \<rparr>"
    "node_x (nodes r1 ! 1) = 400 \<and> node_id (nodes r1 ! 1) = 1 \<and>
     node_label (nodes r1 ! 0) = Some ''in''"
    "conn_to (connections r1 ! 0) = 1 \<and> hasArrow (connections r1 ! 0) \<and>
     controlPoint1 (connections r1 ! 0) = \<lparr> np_x = Num (1078/5), np_y = Num 310 \<rparr> \<and>
     controlPoint2 (connections r1 ! 0) = \<lparr> np_x = Num (1622/5), np_y = Num 310 \<rparr>"
    by (auto simp: named_state_def pair_state_def finitePoint_def)
  with named_eval pair_eval l show ?thesis by blast
qed

text \<open>
  Claim C4 as stated fails on generated states when one side holds a self loop: against
  the single-node state, whose control points are NaN, progress 0 does not reproduce the
  control points of the two-node state, and progress 1 from it does not reproduce them
  either.
\<close>

theorem interpolate_nan_counterexample:
  "generateDiagram pair_params = Inr pair_state \<and>
   generateDiagram solo_params = Inr solo_state \<and>
   interpolateStates pair_state solo_state 0 \<noteq> Inl TypeError \<and>
   controlPoint1 (connections pair_state ! 0) = \<lparr> np_x = Num (1078/5), np_y = Num 310 \<rparr> \<and>
   controlPoint1 (connections (projr (interpolateStates pair_state solo_state 0)) ! 0) =
     \<lparr> np_x = NaN, np_y = NaN \<rparr> \<and>
   interpolateStates solo_state pair_state 1 \<noteq> Inl TypeError \<and>
   controlPoint1 (connections (projr (interpolateStates solo_state pair_state 1)) ! 0) =
     \<lparr> np_x = NaN, np_y = NaN \<rparr>"
  by (simp add: pair_eval solo_eval interpolateStates_eq lerpConn_def)
     (simp add: pair_state_def solo_state_def)

end
